theory Spec2Isabelle
  imports Complex_Main "HOL-Library.Log_Nat"
begin

section \<open>JavaScript numbers and values\<close>

text \<open>
  The calculator (\<^verbatim>\<open>src/js/calculator.js\<close>) and the curve generator
  (\<^verbatim>\<open>src/js/chart.js\<close>) compute with JavaScript numbers. A number is modelled as a
  finite value, one of the two infinities, or NaN. The special values follow the IEEE rules
  that JavaScript uses: NaN is contagious, a non-zero finite value divided by zero is an
  infinity, \<^verbatim>\<open>0 / 0\<close>, \<^verbatim>\<open>0 * Infinity\<close> and
  \<^verbatim>\<open>Infinity - Infinity\<close> are NaN. The two zeros are one value: they are equal
  under \<^verbatim>\<open>===\<close>, and no getter divides by a zero.

  The arithmetic comes in two readings. The operators \<open>+\<close>, \<open>-\<close>, \<open>*\<close> and \<open>/\<close> of
  this section are exact on finite values: they state the formulas of the source over the
  rationals, and the sections on the calculator object and on the productivity curve are
  written with them. The section on binary64 numbers adds what an engine does to every
  result, the rounding to the nearest binary64 value and the overflow to an infinity, and
  the getters are then evaluated a second time, with every operation rounded.
\<close>

datatype jsnum = Fin rat | PInf | NInf | NaN

fun js_neg :: "jsnum \<Rightarrow> jsnum" where
  "js_neg (Fin a) = Fin (- a)"
| "js_neg PInf = NInf"
| "js_neg NInf = PInf"
| "js_neg NaN = NaN"

instantiation jsnum :: "{plus, minus, times, inverse, ord}"
begin

fun plus_jsnum :: "jsnum \<Rightarrow> jsnum \<Rightarrow> jsnum" where
  "plus_jsnum NaN y = NaN"
| "plus_jsnum x NaN = NaN"
| "plus_jsnum (Fin a) (Fin b) = Fin (a + b)"
| "plus_jsnum PInf NInf = NaN"
| "plus_jsnum NInf PInf = NaN"
| "plus_jsnum PInf y = PInf"
| "plus_jsnum NInf y = NInf"
| "plus_jsnum (Fin a) y = y"

definition minus_jsnum :: "jsnum \<Rightarrow> jsnum \<Rightarrow> jsnum" where
  "minus_jsnum x y = x + js_neg y"

fun times_jsnum :: "jsnum \<Rightarrow> jsnum \<Rightarrow> jsnum" where
  "times_jsnum NaN y = NaN"
| "times_jsnum x NaN = NaN"
| "times_jsnum (Fin a) (Fin b) = Fin (a * b)"
| "times_jsnum (Fin a) y = (if a = 0 then NaN else if 0 < a then y else js_neg y)"
| "times_jsnum x (Fin b) = (if b = 0 then NaN else if 0 < b then x else js_neg x)"
| "times_jsnum PInf y = y"
| "times_jsnum NInf y = js_neg y"

fun divide_jsnum :: "jsnum \<Rightarrow> jsnum \<Rightarrow> jsnum" where
  "divide_jsnum NaN y = NaN"
| "divide_jsnum x NaN = NaN"
| "divide_jsnum (Fin a) (Fin b) =
     (if b = 0 then (if a = 0 then NaN else if 0 < a then PInf else NInf)
      else Fin (a / b))"
| "divide_jsnum (Fin a) y = Fin 0"
| "divide_jsnum x (Fin b) = (if 0 \<le> b then x else js_neg x)"
| "divide_jsnum x y = NaN"

fun inverse_jsnum :: "jsnum \<Rightarrow> jsnum" where
  "inverse_jsnum NaN = NaN"
| "inverse_jsnum (Fin b) = (if b = 0 then PInf else Fin (1 / b))"
| "inverse_jsnum x = Fin 0"

text \<open>The comparisons \<^verbatim>\<open><\<close> and \<^verbatim>\<open><=\<close>: false as soon as one side is NaN.\<close>

fun less_jsnum :: "jsnum \<Rightarrow> jsnum \<Rightarrow> bool" where
  "less_jsnum NaN y = False"
| "less_jsnum x NaN = False"
| "less_jsnum (Fin a) (Fin b) = (a < b)"
| "less_jsnum x NInf = False"
| "less_jsnum NInf y = True"
| "less_jsnum PInf y = False"
| "less_jsnum (Fin a) PInf = True"

fun less_eq_jsnum :: "jsnum \<Rightarrow> jsnum \<Rightarrow> bool" where
  "less_eq_jsnum NaN y = False"
| "less_eq_jsnum x NaN = False"
| "less_eq_jsnum (Fin a) (Fin b) = (a \<le> b)"
| "less_eq_jsnum NInf y = True"
| "less_eq_jsnum x PInf = True"
| "less_eq_jsnum PInf y = False"
| "less_eq_jsnum (Fin a) NInf = False"

instance ..

end

text \<open>
  Strict equality \<^verbatim>\<open>===\<close> of two numbers: NaN is equal to nothing, itself
  included.
\<close>

definition strict_eq :: "jsnum \<Rightarrow> jsnum \<Rightarrow> bool" where
  "strict_eq x y = (if x = NaN then False else if y = NaN then False else x = y)"

text \<open>
  \<^verbatim>\<open>Math.round\<close> returns the integer closest to its argument and, of two
  equally close integers, the one nearer to plus infinity; NaN and the infinities are
  returned unchanged.
\<close>

fun Math_round :: "jsnum \<Rightarrow> jsnum" where
  "Math_round (Fin x) = Fin (of_int \<lfloor>x + 1 / 2\<rfloor>)"
| "Math_round x = x"

text \<open>\<^verbatim>\<open>Math.min\<close> of two numbers: NaN if either is NaN, else the smaller.\<close>

fun Math_min :: "jsnum \<Rightarrow> jsnum \<Rightarrow> jsnum" where
  "Math_min NaN y = NaN"
| "Math_min x NaN = NaN"
| "Math_min x y = (if x \<le> y then x else y)"

text \<open>
  What a property read can yield here: \<^verbatim>\<open>undefined\<close>, a number, or a member
  that the object inherits from \<^verbatim>\<open>Object.prototype\<close> (a built-in function, or
  the prototype object itself for \<^verbatim>\<open>__proto__\<close>), recorded by its name.
  In arithmetic a value is converted to a number first: \<^verbatim>\<open>undefined\<close> and the
  inherited members all convert to NaN.
\<close>

datatype jsval = Undefined | Number jsnum | Inherited string

fun ToNumber :: "jsval \<Rightarrow> jsnum" where
  "ToNumber Undefined = NaN"
| "ToNumber (Number n) = n"
| "ToNumber (Inherited k) = NaN"

text \<open>
  The names every object literal inherits from \<^verbatim>\<open>Object.prototype\<close>.
\<close>

definition Object_prototype :: "string list" where
  "Object_prototype =
     [''constructor'', ''hasOwnProperty'', ''isPrototypeOf'', ''propertyIsEnumerable'',
      ''toLocaleString'', ''toString'', ''valueOf'', ''__proto__'',
      ''__defineGetter__'', ''__defineSetter__'', ''__lookupGetter__'', ''__lookupSetter__'']"

text \<open>
  The read \<^verbatim>\<open>obj[key]\<close> on an object literal with numeric own properties: the own
  property if there is one, else the inherited member, else \<^verbatim>\<open>undefined\<close>. A
  read never throws.
\<close>

definition get_property :: "(string \<times> rat) list \<Rightarrow> string \<Rightarrow> jsval" where
  "get_property obj key =
     (case map_of obj key of
        Some v \<Rightarrow> Number (Fin v)
      | None \<Rightarrow> if key \<in> set Object_prototype then Inherited key else Undefined)"

section \<open>The calculator object\<close>

text \<open>
  \<^verbatim>\<open>calculator()\<close> returns an object whose four input properties are set by the
  sliders; they are finite numbers. The static assumptions of the object are constants.
\<close>

record calculator =
  hourlyRate :: rat
  teamSize :: rat
  projectDuration :: rat
  experienceLevel :: string

definition inForceTurnover :: rat where "inForceTurnover = 5 / 100"
definition competitorTurnover :: rat where "competitorTurnover = 30 / 100"
definition vacancyWeeks :: rat where "vacancyWeeks = 2"
definition vacancyPayment :: rat where "vacancyPayment = 1"
definition onboardingDays :: rat where "onboardingDays = 5"
definition onboardingPayment :: rat where "onboardingPayment = 1"

definition rampUpTimelines :: "(string \<times> rat) list" where
  "rampUpTimelines = [(''junior'', 60), (''mixed'', 45), (''senior'', 30)]"

text \<open>The object as \<^verbatim>\<open>calculator()\<close> returns it, before any slider moves.\<close>

definition calculator :: calculator where
  "calculator =
     \<lparr>hourlyRate = 200, teamSize = 12, projectDuration = 18, experienceLevel = ''mixed''\<rparr>"

definition hoursPerWeek :: jsnum where "hoursPerWeek = Fin 40"

definition weeksPerYear :: jsnum where "weeksPerYear = Fin 52"

definition rampUpDays :: "calculator \<Rightarrow> jsval" where
  "rampUpDays c = get_property rampUpTimelines (experienceLevel c)"

definition competitorTurnoverEvents :: "calculator \<Rightarrow> jsnum" where
  "competitorTurnoverEvents c =
     (let annualEvents = Fin competitorTurnover * Fin (teamSize c);
          projectEvents = annualEvents * (Fin (projectDuration c) / Fin 12)
      in Math_round projectEvents)"

definition inforceTurnoverEvents :: "calculator \<Rightarrow> jsnum" where
  "inforceTurnoverEvents c =
     (let annualEvents = Fin inForceTurnover * Fin (teamSize c);
          projectEvents = annualEvents * (Fin (projectDuration c) / Fin 12)
      in Math_round projectEvents)"

definition idleTimeCost :: "calculator \<Rightarrow> jsnum" where
  "idleTimeCost c =
     (let hours = Fin vacancyWeeks * hoursPerWeek;
          cost = hours * Fin (hourlyRate c) * Fin vacancyPayment
      in cost)"

definition onboardingCost :: "calculator \<Rightarrow> jsnum" where
  "onboardingCost c =
     (let hours = (Fin onboardingDays / Fin 5) * hoursPerWeek;
          cost = hours * Fin (hourlyRate c) * Fin onboardingPayment
      in cost)"

definition rampUpCost :: "calculator \<Rightarrow> jsnum" where
  "rampUpCost c =
     (let rampUpWeeks = ToNumber (rampUpDays c) / Fin 5;
          hours = rampUpWeeks * hoursPerWeek;
          averageProductivity = Fin (5 / 10);
          productivityGap = Fin 1 - averageProductivity;
          cost = hours * Fin (hourlyRate c) * productivityGap
      in cost)"

definition costPerEvent :: "calculator \<Rightarrow> jsnum" where
  "costPerEvent c = idleTimeCost c + onboardingCost c + rampUpCost c"

definition competitorTotal :: "calculator \<Rightarrow> jsnum" where
  "competitorTotal c = competitorTurnoverEvents c * costPerEvent c"

definition inforceTotal :: "calculator \<Rightarrow> jsnum" where
  "inforceTotal c = inforceTurnoverEvents c * costPerEvent c"

definition savings :: "calculator \<Rightarrow> jsnum" where
  "savings c = competitorTotal c - inforceTotal c"

definition savingsPercentage :: "calculator \<Rightarrow> jsnum" where
  "savingsPercentage c =
     (if strict_eq (competitorTotal c) (Fin 0) then Fin 0
      else (savings c / competitorTotal c) * Fin 100)"

text \<open>
  Reading a getter either returns its value or throws. The source has no
  \<^verbatim>\<open>throw\<close>, and what its getters do (a property read on an object literal,
  arithmetic on primitive values, \<^verbatim>\<open>Math.round\<close>) cannot throw, so a read
  always returns.
\<close>

datatype error = InvalidExperienceLevel

definition read_getter :: "(calculator \<Rightarrow> 'a) \<Rightarrow> calculator \<Rightarrow> error + 'a" where
  "read_getter getter c = Inr (getter c)"

section \<open>The productivity curve\<close>

text \<open>
  \<^verbatim>\<open>generateProductivityCurve\<close> of \<^verbatim>\<open>chart.js\<close>: the loop over
  \<^verbatim>\<open>week = 0 .. 12\<close> pushes one point per week.
\<close>

function curve_loop :: "rat \<Rightarrow> nat \<Rightarrow> jsnum list \<Rightarrow> jsnum list" where
  "curve_loop rampUpWeeks week curve =
     (if week \<le> 12 then
        curve_loop rampUpWeeks (week + 1)
          (if week < 2 then curve @ [Fin 0]
           else if week < 3 then curve @ [Fin 0]
           else
             (let weeksIntoRampUp = Fin (of_nat week) - Fin 3;
                  productivity =
                    Math_min (Fin 100) ((weeksIntoRampUp / Fin rampUpWeeks) * Fin 100)
              in curve @ [productivity]))
      else curve)"
  by pat_completeness auto
termination
  by (relation "measure (\<lambda>(rampUpWeeks, week, curve). 13 - week)") auto

declare curve_loop.simps [simp del]

definition generateProductivityCurve :: "rat \<Rightarrow> jsnum list" where
  "generateProductivityCurve rampUpWeeks = curve_loop rampUpWeeks 0 []"

definition seniorCurve :: "jsnum list" where
  "seniorCurve = generateProductivityCurve 6"

definition mixedCurve :: "jsnum list" where
  "mixedCurve = generateProductivityCurve 9"

definition juniorCurve :: "jsnum list" where
  "juniorCurve = generateProductivityCurve 12"

section \<open>Binary64 numbers\<close>

text \<open>
  A JavaScript number is an IEEE 754 binary64 value, and each arithmetic operation
  returns the binary64 value nearest to its exact result, the one with an even
  significand at a tie. The definitions of this section compute that rounding on the
  rationals, so that the getters can be evaluated as an engine evaluates them.

  \<open>round_even\<close> rounds a rational to the nearest integer, to the even one at a tie.
\<close>

definition round_even :: "rat \<Rightarrow> int" where
  "round_even q =
     (let n = \<lfloor>q\<rfloor>; r = q - of_int n
      in if r < 1 / 2 then n else if 1 / 2 < r then n + 1
         else if even n then n else n + 1)"

text \<open>
  The binary exponent of a positive rational \<open>x\<close>: the integer \<open>k\<close> with
  \<open>2 ^ k \<le> x < 2 ^ (k + 1)\<close>.
\<close>

definition ilog2 :: "rat \<Rightarrow> int" where
  "ilog2 x =
     (if 1 \<le> x then bitlen \<lfloor>x\<rfloor> - 1
      else (let b = bitlen \<lfloor>1 / x\<rfloor> in if x = 2 powi (1 - b) then 1 - b else - b))"

text \<open>
  The exponent of the unit in the last place at \<open>x\<close>: a significand has 53 bits, and
  below \<open>2 ^ (- 1022)\<close> the numbers are subnormal, with the spacing \<open>2 ^ (- 1074)\<close>.
\<close>

definition ulp_exponent :: "rat \<Rightarrow> int" where
  "ulp_exponent x = max (ilog2 \<bar>x\<bar>) (- 1022) - 52"

text \<open>The multiple of the unit in the last place that is nearest to \<open>x\<close>, ties to even.\<close>

definition nearest :: "rat \<Rightarrow> rat" where
  "nearest x =
     (if x = 0 then 0
      else of_int (round_even (x / 2 powi ulp_exponent x)) * 2 powi ulp_exponent x)"

text \<open>
  The number value of a rational: the nearest binary64 value, an infinity once the
  rounding reaches \<open>2 ^ 1024\<close>. It is what a numeric literal denotes and what an
  arithmetic operation returns for an exact result \<open>x\<close>.
\<close>

definition number_value :: "rat \<Rightarrow> jsnum" where
  "number_value x =
     (let y = nearest x
      in if 2 powi 1024 \<le> y then PInf
         else if y \<le> - (2 powi 1024) then NInf
         else Fin y)"

text \<open>
  The operators \<^verbatim>\<open>+\<close>, \<^verbatim>\<open>-\<close>, \<^verbatim>\<open>*\<close> and \<^verbatim>\<open>/\<close> on numbers: the
  exact result, with the special values handled as above, rounded when it is finite.
\<close>

fun rounded :: "jsnum \<Rightarrow> jsnum" where
  "rounded (Fin x) = number_value x"
| "rounded v = v"

definition js_add :: "jsnum \<Rightarrow> jsnum \<Rightarrow> jsnum" where
  "js_add a b = rounded (a + b)"

definition js_sub :: "jsnum \<Rightarrow> jsnum \<Rightarrow> jsnum" where
  "js_sub a b = rounded (a - b)"

definition js_mul :: "jsnum \<Rightarrow> jsnum \<Rightarrow> jsnum" where
  "js_mul a b = rounded (a * b)"

definition js_div :: "jsnum \<Rightarrow> jsnum \<Rightarrow> jsnum" where
  "js_div a b = rounded (a / b)"

section \<open>The getters on binary64 numbers\<close>

text \<open>
  The getters of \<^verbatim>\<open>calculator.js\<close> once more, operation by operation in the order
  of the source, each operation rounding its result. The inputs and the literals of the
  source are read as numbers (\<open>0.30\<close> and \<open>0.05\<close> are not binary fractions, so the
  numbers they denote differ from them). \<open>rampUpDays\<close> and \<open>hoursPerWeek\<close> are the ones
  above: 60, 45, 30 and 40 are numbers as they stand. A name carries the suffix
  \<open>_ieee\<close> to tell it from the getter over exact rationals.
\<close>

definition competitorTurnoverEvents_ieee :: "calculator \<Rightarrow> jsnum" where
  "competitorTurnoverEvents_ieee c =
     (let annualEvents = js_mul (number_value competitorTurnover) (number_value (teamSize c));
          projectEvents =
            js_mul annualEvents (js_div (number_value (projectDuration c)) (number_value 12))
      in Math_round projectEvents)"

definition inforceTurnoverEvents_ieee :: "calculator \<Rightarrow> jsnum" where
  "inforceTurnoverEvents_ieee c =
     (let annualEvents = js_mul (number_value inForceTurnover) (number_value (teamSize c));
          projectEvents =
            js_mul annualEvents (js_div (number_value (projectDuration c)) (number_value 12))
      in Math_round projectEvents)"

definition idleTimeCost_ieee :: "calculator \<Rightarrow> jsnum" where
  "idleTimeCost_ieee c =
     (let hours = js_mul (number_value vacancyWeeks) hoursPerWeek;
          cost = js_mul (js_mul hours (number_value (hourlyRate c))) (number_value vacancyPayment)
      in cost)"

definition onboardingCost_ieee :: "calculator \<Rightarrow> jsnum" where
  "onboardingCost_ieee c =
     (let hours = js_mul (js_div (number_value onboardingDays) (number_value 5)) hoursPerWeek;
          cost = js_mul (js_mul hours (number_value (hourlyRate c)))
                   (number_value onboardingPayment)
      in cost)"

definition rampUpCost_ieee :: "calculator \<Rightarrow> jsnum" where
  "rampUpCost_ieee c =
     (let rampUpWeeks = js_div (ToNumber (rampUpDays c)) (number_value 5);
          hours = js_mul rampUpWeeks hoursPerWeek;
          averageProductivity = number_value (5 / 10);
          productivityGap = js_sub (number_value 1) averageProductivity;
          cost = js_mul (js_mul hours (number_value (hourlyRate c))) productivityGap
      in cost)"

definition costPerEvent_ieee :: "calculator \<Rightarrow> jsnum" where
  "costPerEvent_ieee c =
     js_add (js_add (idleTimeCost_ieee c) (onboardingCost_ieee c)) (rampUpCost_ieee c)"

definition competitorTotal_ieee :: "calculator \<Rightarrow> jsnum" where
  "competitorTotal_ieee c = js_mul (competitorTurnoverEvents_ieee c) (costPerEvent_ieee c)"

definition inforceTotal_ieee :: "calculator \<Rightarrow> jsnum" where
  "inforceTotal_ieee c = js_mul (inforceTurnoverEvents_ieee c) (costPerEvent_ieee c)"

definition savings_ieee :: "calculator \<Rightarrow> jsnum" where
  "savings_ieee c = js_sub (competitorTotal_ieee c) (inforceTotal_ieee c)"

definition savingsPercentage_ieee :: "calculator \<Rightarrow> jsnum" where
  "savingsPercentage_ieee c =
     (if strict_eq (competitorTotal_ieee c) (Fin 0) then Fin 0
      else js_mul (js_div (savings_ieee c) (competitorTotal_ieee c)) (number_value 100))"

section \<open>The specification's formulas\<close>


text \<open>
  The point of the curve that the specification gives for week \<open>w\<close>: zero before week 3,
  then the linear ramp \<open>(w - 3) / rampUpWeeks * 100\<close> clamped at 100.
\<close>

definition curve_point :: "rat \<Rightarrow> nat \<Rightarrow> jsnum" where
  "curve_point rampUpWeeks w =
     (if w < 3 then Fin 0 else Fin (min 100 ((of_nat w - 3) / rampUpWeeks * 100)))"


text \<open>A number between 0 and a bound: finite in particular.\<close>

definition in_range :: "rat \<Rightarrow> jsnum \<Rightarrow> bool" where
  "in_range B v = (case v of Fin y \<Rightarrow> 0 \<le> y \<and> y \<le> B | _ \<Rightarrow> False)"

section \<open>Closed forms of the getters\<close>

lemmas constant_defs = hoursPerWeek_def inForceTurnover_def competitorTurnover_def
  vacancyWeeks_def vacancyPayment_def onboardingDays_def onboardingPayment_def

lemma idleTimeCost_closed: "idleTimeCost c = Fin (80 * hourlyRate c)"
  by (simp add: idleTimeCost_def constant_defs)

lemma onboardingCost_closed: "onboardingCost c = Fin (40 * hourlyRate c)"
  by (simp add: onboardingCost_def constant_defs)

lemma competitorTurnoverEvents_closed:
  "competitorTurnoverEvents c =
     Fin (of_int \<lfloor>teamSize c * projectDuration c / 40 + 1 / 2\<rfloor>)"
  by (simp add: competitorTurnoverEvents_def constant_defs mult.commute)

lemma inforceTurnoverEvents_closed:
  "inforceTurnoverEvents c =
     Fin (of_int \<lfloor>teamSize c * projectDuration c / 240 + 1 / 2\<rfloor>)"
  by (simp add: inforceTurnoverEvents_def constant_defs mult.commute)

lemma rampUpDays_own:
  "rampUpDays c =
     (if experienceLevel c = ''junior'' then Number (Fin 60)
      else if experienceLevel c = ''mixed'' then Number (Fin 45)
      else if experienceLevel c = ''senior'' then Number (Fin 30)
      else if experienceLevel c \<in> set Object_prototype then Inherited (experienceLevel c)
      else Undefined)"
  by (simp add: rampUpDays_def get_property_def rampUpTimelines_def)

lemma rampUpCost_closed:
  "rampUpCost c =
     (if experienceLevel c = ''junior'' then Fin (240 * hourlyRate c)
      else if experienceLevel c = ''mixed'' then Fin (180 * hourlyRate c)
      else if experienceLevel c = ''senior'' then Fin (120 * hourlyRate c)
      else NaN)"
  by (simp add: rampUpCost_def rampUpDays_own constant_defs minus_jsnum_def)

lemma costPerEvent_closed:
  "costPerEvent c =
     (if experienceLevel c = ''junior'' then Fin (360 * hourlyRate c)
      else if experienceLevel c = ''mixed'' then Fin (300 * hourlyRate c)
      else if experienceLevel c = ''senior'' then Fin (240 * hourlyRate c)
      else NaN)"
  by (simp add: costPerEvent_def idleTimeCost_closed onboardingCost_closed rampUpCost_closed)

section \<open>Rounding\<close>




section \<open>The loop of the curve generator\<close>

lemma ramp_point:
  assumes "0 < r"
  shows "Math_min (Fin 100) (((Fin (of_nat w) - Fin 3) / Fin r) * Fin 100)
         = Fin (min 100 ((of_nat w - 3) / r * 100))"
  using assms by (simp add: minus_jsnum_def min_def)

lemma curve_loop_points:
  "0 < r \<Longrightarrow> week \<le> 13 \<Longrightarrow>
     curve_loop r week curve = curve @ map (curve_point r) [week..<13]"
proof (induction r week curve rule: curve_loop.induct)
  case (1 r week curve)
  show ?case
  proof (cases "week \<le> 12")
    case True
    then have upt: "[week..<13] = week # [week + 1..<13]"
      by (simp add: upt_conv_Cons)
    let ?next = "(if week < 2 then curve @ [Fin 0]
           else if week < 3 then curve @ [Fin 0]
           else
             (let weeksIntoRampUp = Fin (of_nat week) - Fin 3;
                  productivity =
                    Math_min (Fin 100) ((weeksIntoRampUp / Fin r) * Fin 100)
              in curve @ [productivity]))"
    have step: "?next = curve @ [curve_point r week]"
      using ramp_point [OF \<open>0 < r\<close>, of week] by (simp add: curve_point_def Let_def)
    have "curve_loop r week curve = curve_loop r (week + 1) ?next"
      using True by (subst curve_loop.simps) simp
    also have "\<dots> = ?next @ map (curve_point r) [week + 1..<13]"
      using "1.IH" [OF True] "1.prems" True by simp
    finally show ?thesis
      by (simp only: step upt) simp
  next
    case False
    with "1.prems" have "week = 13" by simp
    then show ?thesis by (subst curve_loop.simps) simp
  qed
qed

lemma generateProductivityCurve_points:
  "0 < r \<Longrightarrow> generateProductivityCurve r = map (curve_point r) [0..<13]"
  by (simp del: curve_loop.simps add: generateProductivityCurve_def curve_loop_points)

section \<open>The default scenario\<close>

lemma default_level: "experienceLevel calculator = ''mixed''"
  by (simp add: calculator_def)

lemma default_events:
  "competitorTurnoverEvents calculator = Fin 5" "inforceTurnoverEvents calculator = Fin 1"
  by (simp_all add: competitorTurnoverEvents_closed inforceTurnoverEvents_closed
      calculator_def floor_eq_iff)

lemma default_costPerEvent: "costPerEvent calculator = Fin 60000"
  by (simp add: costPerEvent_closed calculator_def)

section \<open>An experience level that is no key of the timelines\<close>

lemma strict_eq_zero: "strict_eq x (Fin 0) = (x = Fin 0)"
  by (auto simp add: strict_eq_def)

lemma rampUpDays_invalid:
  "experienceLevel c \<notin> {''junior'', ''mixed'', ''senior''} \<Longrightarrow>
     rampUpDays c = (if experienceLevel c \<in> set Object_prototype
                     then Inherited (experienceLevel c) else Undefined)"
  by (simp add: rampUpDays_own)

section \<open>Powers of two, the binary exponent and rounding to even\<close>

text \<open>
  \<open>ilog2 x\<close> is the one integer \<open>k\<close> with \<open>2 ^ k \<le> x < 2 ^ (k + 1)\<close>, and it
  grows with \<open>x\<close>. \<open>round_even\<close> grows with its argument, leaves the integers alone
  and is at most one half away from its argument.
\<close>

lemma pow2_mono: "a \<le> b \<Longrightarrow> (2::rat) powi a \<le> 2 powi b"
  by (rule power_int_increasing) simp_all

lemma pow2_strict_mono: "a < b \<Longrightarrow> (2::rat) powi a < 2 powi b"
  by (rule power_int_strict_increasing) simp_all

lemma pow2_less_cancel: "(2::rat) powi a < 2 powi b \<Longrightarrow> a < b"
  using pow2_mono [of b a] by (cases "a < b") simp_all

lemma pow2_add: "(2::rat) powi (a + b) = 2 powi a * 2 powi b"
  by (simp add: power_int_add)

lemma bitlen_pos: "0 < m \<Longrightarrow> 1 \<le> bitlen m"
  using bitlen_eq_zero_iff [of m] bitlen_nonneg [of m] by linarith

lemma floor_bitlen_bounds:
  fixes y :: rat
  assumes "1 \<le> y"
  shows "2 powi (bitlen \<lfloor>y\<rfloor> - 1) \<le> y" and "y < 2 powi bitlen \<lfloor>y\<rfloor>"
proof -
  let ?m = "\<lfloor>y\<rfloor>" and ?b = "bitlen \<lfloor>y\<rfloor>"
  have m: "0 < ?m" using assms by simp
  have b: "1 \<le> ?b" using m by (rule bitlen_pos)
  have lo: "2 ^ nat (?b - 1) \<le> ?m" and hi: "?m < 2 ^ nat ?b"
    using bitlen_bounds [OF m] by simp_all
  have "(2::rat) powi (?b - 1) = of_int (2 ^ nat (?b - 1))"
    using b by (simp add: power_int_def)
  also have "\<dots> \<le> of_int ?m" using lo by (simp only: of_int_le_iff)
  also have "\<dots> \<le> y" by simp
  finally show "2 powi (?b - 1) \<le> y" .
  have "?m + 1 \<le> 2 ^ nat ?b" using hi by simp
  then have "(of_int (?m + 1) :: rat) \<le> of_int (2 ^ nat ?b)" by (simp only: of_int_le_iff)
  moreover have "y < of_int (?m + 1)" by linarith
  moreover have "(2::rat) powi ?b = of_int (2 ^ nat ?b)"
    using b by (simp add: power_int_def)
  ultimately show "y < 2 powi ?b" by simp
qed

lemma ilog2_bounds:
  assumes "0 < x"
  shows "2 powi ilog2 x \<le> x" and "x < 2 powi (ilog2 x + 1)"
proof -
  have "2 powi ilog2 x \<le> x \<and> x < 2 powi (ilog2 x + 1)"
  proof (cases "1 \<le> x")
    case True
    then show ?thesis
      using floor_bitlen_bounds [OF True] by (simp add: ilog2_def)
  next
    case False
    define b where "b = bitlen \<lfloor>1 / x\<rfloor>"
    have y: "1 \<le> 1 / x" using False assms by simp
    have lo: "2 powi (b - 1) \<le> 1 / x" and hi: "1 / x < 2 powi b"
      using floor_bitlen_bounds [OF y] by (simp_all add: b_def)
    have p: "0 < (2::rat) powi b" "0 < (2::rat) powi (b - 1)" by simp_all
    from hi have gt: "2 powi (- b) < x"
      using assms p(1) by (simp add: power_int_minus field_simps)
    from lo have le: "x \<le> 2 powi (1 - b)"
    proof -
      have "x * 2 powi (b - 1) \<le> 1" using lo assms by (simp add: field_simps)
      moreover have "(2::rat) powi (1 - b) = 1 / 2 powi (b - 1)"
        using power_int_minus_divide [of "2::rat" "b - 1"] by simp
      ultimately have "x \<le> 1 / 2 powi (b - 1)" and "(2::rat) powi (1 - b) = 1 / 2 powi (b - 1)"
        using p(2) by (simp_all add: field_simps)
      then show ?thesis by simp
    qed
    have il: "ilog2 x = (if x = 2 powi (1 - b) then 1 - b else - b)"
      using False by (simp add: ilog2_def b_def Let_def)
    show ?thesis
    proof (cases "x = 2 powi (1 - b)")
      case True
      have k: "ilog2 x = 1 - b" using il True by simp
      have "(2::rat) powi (1 - b) < 2 powi (1 - b + 1)"
        by (rule pow2_strict_mono) simp
      then have "x < 2 powi (1 - b + 1)" using True by simp
      moreover have "2 powi (1 - b) \<le> x" using True by simp
      ultimately show ?thesis unfolding k by blast
    next
      case neq: False
      have k: "ilog2 x = - b" using il neq by simp
      have "x < 2 powi (- b + 1)" using le neq by (simp add: add.commute)
      moreover have "2 powi (- b) \<le> x" using gt by simp
      ultimately show ?thesis unfolding k by blast
    qed
  qed
  then show "2 powi ilog2 x \<le> x" and "x < 2 powi (ilog2 x + 1)" by simp_all
qed

lemma ilog2_unique:
  assumes "2 powi k \<le> x" and "x < 2 powi (k + 1)"
  shows "ilog2 x = k"
proof -
  have pos: "0 < x" using assms(1) zero_less_power_int [of "2::rat" k] by linarith
  note b = ilog2_bounds [OF pos]
  have "(2::rat) powi k < 2 powi (ilog2 x + 1)" using assms(1) b(2) by linarith
  then have "k < ilog2 x + 1" by (rule pow2_less_cancel)
  moreover have "(2::rat) powi ilog2 x < 2 powi (k + 1)" using assms(2) b(1) by linarith
  then have "ilog2 x < k + 1" by (rule pow2_less_cancel)
  ultimately show ?thesis by simp
qed

lemma ilog2_mono:
  assumes "0 < x" and "x \<le> y"
  shows "ilog2 x \<le> ilog2 y"
proof -
  have "0 < y" using assms by simp
  have "(2::rat) powi ilog2 x \<le> x" using ilog2_bounds(1) [OF assms(1)] .
  also have "x \<le> y" by fact
  also have "y < 2 powi (ilog2 y + 1)" using ilog2_bounds(2) [OF \<open>0 < y\<close>] .
  finally have "ilog2 x < ilog2 y + 1" by (rule pow2_less_cancel)
  then show ?thesis by simp
qed

lemma round_even_floor: "\<lfloor>q\<rfloor> \<le> round_even q" and round_even_ceil: "round_even q \<le> \<lfloor>q\<rfloor> + 1"
  by (simp_all add: round_even_def Let_def)

lemma round_even_int [simp]: "round_even (of_int m) = m"
  by (simp add: round_even_def)

lemma round_even_lower:
  assumes "of_int m \<le> q"
  shows "m \<le> round_even q"
proof -
  have "m \<le> \<lfloor>q\<rfloor>" using assms by (simp add: le_floor_iff)
  then show ?thesis using round_even_floor [of q] by linarith
qed

lemma round_even_upper:
  assumes "q \<le> of_int m"
  shows "round_even q \<le> m"
proof (cases "q = of_int m")
  case True
  then show ?thesis by simp
next
  case False
  with assms have "q < of_int m" by simp
  then have "\<lfloor>q\<rfloor> < m" by (simp add: floor_less_iff)
  then show ?thesis using round_even_ceil [of q] by simp
qed

lemma round_even_mono:
  assumes "q \<le> q'"
  shows "round_even q \<le> round_even q'"
proof (cases "\<lfloor>q\<rfloor> = \<lfloor>q'\<rfloor>")
  case True
  then show ?thesis
    using assms by (auto simp add: round_even_def Let_def)
next
  case False
  with assms have "\<lfloor>q\<rfloor> < \<lfloor>q'\<rfloor>"
    using floor_mono [OF assms] by simp
  then show ?thesis
    using round_even_ceil [of q] round_even_floor [of q'] by simp
qed

lemma round_even_near:
  assumes "\<bar>q - of_int n\<bar> < 1 / 2"
  shows "round_even q = n"
proof (cases "of_int n \<le> q")
  case True
  with assms have "\<lfloor>q\<rfloor> = n" by (intro floor_unique) linarith+
  with assms True show ?thesis by (simp add: round_even_def Let_def)
next
  case False
  with assms have "\<lfloor>q\<rfloor> = n - 1" by (intro floor_unique; simp; linarith)
  with assms False show ?thesis by (simp add: round_even_def Let_def)
qed

lemma round_even_tie:
  assumes "q = of_int n + 1 / 2"
  shows "round_even q = (if even n then n else n + 1)"
proof -
  have "\<lfloor>q\<rfloor> = n" using assms by (intro floor_unique) simp_all
  then show ?thesis using assms by (simp add: round_even_def Let_def)
qed

lemma round_even_neg: "round_even (- q) = - round_even q"
proof (cases "q = of_int \<lfloor>q\<rfloor>")
  case True
  then obtain m where m: "q = of_int m" ..
  have "round_even (of_int (- m)) = - m" by (rule round_even_int)
  then show ?thesis by (simp add: m)
next
  case False
  then have lt: "of_int \<lfloor>q\<rfloor> < q" using of_int_floor_le [of q] by linarith
  have fl: "\<lfloor>- q\<rfloor> = - \<lfloor>q\<rfloor> - 1"
    using lt by (intro floor_unique; simp; linarith)
  show ?thesis
    using lt by (auto simp add: round_even_def Let_def fl)
qed

section \<open>Rounding to binary64\<close>

text \<open>
  The rounding leaves the multiples of the unit in the last place alone, commutes with
  the change of sign and grows with its argument. So \<open>number_value\<close> grows with its
  argument, a number is its own number value, and the whole numbers below \<open>2 ^ 53\<close> in
  absolute value are numbers as they stand.
\<close>

lemma ulp_exponent_neg [simp]: "ulp_exponent (- x) = ulp_exponent x"
  by (simp add: ulp_exponent_def)

lemma nearest_neg: "nearest (- x) = - nearest x"
  by (simp add: nearest_def round_even_neg)

lemma nearest_zero [simp]: "nearest 0 = 0"
  by (simp add: nearest_def)

lemma nearest_grid:
  assumes "x = of_int m * 2 powi ulp_exponent x"
  shows "nearest x = x"
proof (cases "x = 0")
  case True
  then show ?thesis by simp
next
  case False
  have "x / 2 powi ulp_exponent x = of_int m"
    using assms by (metis nonzero_eq_divide_eq power_int_eq_0_iff zero_neq_numeral)
  then show ?thesis using assms False by (simp add: nearest_def)
qed

lemma nearest_le_grid:
  assumes "x \<le> of_int m * 2 powi ulp_exponent x" and "x \<noteq> 0"
  shows "nearest x \<le> of_int m * 2 powi ulp_exponent x"
proof -
  have "x / 2 powi ulp_exponent x \<le> of_int m"
    using assms(1) by (simp add: pos_divide_le_eq)
  then have "round_even (x / 2 powi ulp_exponent x) \<le> m" by (rule round_even_upper)
  then have "(of_int (round_even (x / 2 powi ulp_exponent x)) :: rat) \<le> of_int m" by simp
  then show ?thesis using assms(2) by (simp add: nearest_def)
qed

lemma nearest_ge_grid:
  assumes "of_int m * 2 powi ulp_exponent x \<le> x" and "x \<noteq> 0"
  shows "of_int m * 2 powi ulp_exponent x \<le> nearest x"
proof -
  have "of_int m \<le> x / 2 powi ulp_exponent x"
    using assms(1) by (simp add: pos_le_divide_eq)
  then have "m \<le> round_even (x / 2 powi ulp_exponent x)" by (rule round_even_lower)
  then have "(of_int m :: rat) \<le> of_int (round_even (x / 2 powi ulp_exponent x))" by simp
  then show ?thesis using assms(2) by (simp add: nearest_def)
qed

lemma pow2_grid:
  assumes "e \<le> k"
  shows "(2::rat) powi k = of_int (2 ^ nat (k - e)) * 2 powi e"
proof -
  have "(2::rat) powi k = 2 powi (k - e) * 2 powi e"
    using pow2_add [of "k - e" e] by simp
  moreover have "(2::rat) powi (k - e) = of_int (2 ^ nat (k - e))"
    using assms by (simp add: power_int_def)
  ultimately show ?thesis by simp
qed

lemma nearest_nonneg: "0 \<le> x \<Longrightarrow> 0 \<le> nearest x"
  using nearest_ge_grid [of 0 x] by (cases "x = 0") simp_all

lemma nearest_le_pow2:
  assumes "0 < x" and "x \<le> 2 powi k" and "ulp_exponent x \<le> k"
  shows "nearest x \<le> 2 powi k"
  using nearest_le_grid [of x "2 ^ nat (k - ulp_exponent x)"] assms
    pow2_grid [OF assms(3)] by simp

lemma nearest_ge_pow2:
  assumes "0 < x" and "2 powi k \<le> x" and "ulp_exponent x \<le> k"
  shows "2 powi k \<le> nearest x"
  using nearest_ge_grid [of "2 ^ nat (k - ulp_exponent x)" x] assms
    pow2_grid [OF assms(3)] by simp

lemma ulp_exponent_mono:
  assumes "0 < x" and "x \<le> y"
  shows "ulp_exponent x \<le> ulp_exponent y"
  using ilog2_mono [of x y] assms by (simp add: ulp_exponent_def)

lemma nearest_mono_pos:
  assumes "0 < x" and "x \<le> y"
  shows "nearest x \<le> nearest y"
proof (cases "ulp_exponent x = ulp_exponent y")
  case True
  have "x / 2 powi ulp_exponent y \<le> y / 2 powi ulp_exponent y"
    using assms(2) by (simp add: divide_right_mono)
  then have "round_even (x / 2 powi ulp_exponent y) \<le> round_even (y / 2 powi ulp_exponent y)"
    by (rule round_even_mono)
  then have "(of_int (round_even (x / 2 powi ulp_exponent y)) :: rat) * 2 powi ulp_exponent y
      \<le> of_int (round_even (y / 2 powi ulp_exponent y)) * 2 powi ulp_exponent y"
    by (simp add: mult_right_mono)
  then show ?thesis using assms True by (simp add: nearest_def)
next
  case False
  have y: "0 < y" using assms by simp
  have lt: "ulp_exponent x < ulp_exponent y"
    using ulp_exponent_mono [OF assms] False by simp
  define k where "k = ilog2 y"
  have k: "ilog2 x < k" "- 1022 < k" "ulp_exponent y = k - 52" "ulp_exponent x < k"
    using lt assms y by (auto simp add: ulp_exponent_def k_def max_def split: if_splits)
  have "x < 2 powi (ilog2 x + 1)" using ilog2_bounds(2) [OF assms(1)] .
  also have "\<dots> \<le> 2 powi k" using k(1) by (intro pow2_mono) simp
  finally have "nearest x \<le> 2 powi k"
    using nearest_le_pow2 [of x k] assms(1) k(4) by simp
  moreover have "2 powi k \<le> y" using ilog2_bounds(1) [OF y] by (simp add: k_def)
  then have "2 powi k \<le> nearest y"
    using nearest_ge_pow2 [of y k] y k(3) by simp
  ultimately show ?thesis by simp
qed

lemma nearest_mono:
  assumes "x \<le> y"
  shows "nearest x \<le> nearest y"
proof -
  consider "0 < x" | "x \<le> 0" "0 \<le> y" | "y < 0" by linarith
  then show ?thesis
  proof cases
    case 1
    then show ?thesis using assms by (rule nearest_mono_pos)
  next
    case 2
    have "nearest x \<le> 0"
      using nearest_nonneg [of "- x"] 2(1) by (simp add: nearest_neg)
    then show ?thesis using nearest_nonneg [OF 2(2)] by simp
  next
    case 3
    have "nearest (- y) \<le> nearest (- x)"
      using 3 assms by (intro nearest_mono_pos) simp_all
    then show ?thesis by (simp add: nearest_neg)
  qed
qed

lemma nearest_idem_pos:
  assumes "0 < x"
  shows "nearest (nearest x) = nearest x"
proof -
  define k where "k = ilog2 x"
  define y where "y = nearest x"
  define n where "n = round_even (x / 2 powi ulp_exponent x)"
  have y_eq: "y = of_int n * 2 powi ulp_exponent x"
    using assms by (simp add: y_def n_def nearest_def)
  have lo: "2 powi k \<le> x" and hi: "x < 2 powi (k + 1)"
    using ilog2_bounds [OF assms] by (simp_all add: k_def)
  have y0: "0 \<le> y" using assms nearest_nonneg [of x] by (simp add: y_def)
  have ax: "\<bar>x\<bar> = x" and ay: "\<bar>y\<bar> = y" using assms y0 by simp_all
  show ?thesis
  proof (cases "- 1022 \<le> k")
    case True
    then have e: "ulp_exponent x = k - 52" by (simp add: ulp_exponent_def k_def ax)
    have ylo: "2 powi k \<le> y"
      using nearest_ge_pow2 [of x k] assms lo e by (simp add: y_def)
    have yhi: "y \<le> 2 powi (k + 1)"
      using nearest_le_pow2 [of x "k + 1"] assms hi e by (simp add: y_def)
    show ?thesis
    proof (cases "y = 2 powi (k + 1)")
      case True
      have "(2::rat) powi (k + 1) < 2 powi (k + 1 + 1)" by (rule pow2_strict_mono) simp
      then have "ilog2 y = k + 1" using True by (intro ilog2_unique) simp_all
      then have "ulp_exponent y = k + 1 - 52"
        using \<open>- 1022 \<le> k\<close> by (simp add: ulp_exponent_def ay)
      then have "y = of_int (2 ^ nat 52) * 2 powi ulp_exponent y"
        using pow2_grid [of "k + 1 - 52" "k + 1"] True by simp
      then have "nearest y = y" by (rule nearest_grid)
      then show ?thesis by (simp add: y_def)
    next
      case False
      with yhi have "y < 2 powi (k + 1)" by simp
      with ylo have "ilog2 y = k" by (intro ilog2_unique)
      then have "ulp_exponent y = ulp_exponent x"
        by (simp add: ulp_exponent_def k_def ax ay)
      then have "y = of_int n * 2 powi ulp_exponent y" using y_eq by simp
      then have "nearest y = y" by (rule nearest_grid)
      then show ?thesis by (simp add: y_def)
    qed
  next
    case False
    then have e: "ulp_exponent x = - 1074" by (simp add: ulp_exponent_def k_def ax)
    have "(2::rat) powi (k + 1) \<le> 2 powi (- 1022)" using False by (intro pow2_mono) simp
    with hi have "x \<le> 2 powi (- 1022)" by simp
    then have yhi: "y \<le> 2 powi (- 1022)"
      using nearest_le_pow2 [of x "- 1022"] assms e by (simp add: y_def)
    show ?thesis
    proof (cases "y = 0")
      case True
      then show ?thesis by (simp add: y_def)
    next
      case False
      with y0 have pos: "0 < y" by simp
      have "(2::rat) powi (- 1022) < 2 powi (- 1021)" by (rule pow2_strict_mono) simp
      with yhi ilog2_bounds(1) [OF pos] have "(2::rat) powi ilog2 y < 2 powi (- 1021)"
        by linarith
      then have "ilog2 y < - 1021" by (rule pow2_less_cancel)
      then have "ulp_exponent y = ulp_exponent x"
        using e by (simp add: ulp_exponent_def ay)
      then have "y = of_int n * 2 powi ulp_exponent y" using y_eq by simp
      then have "nearest y = y" by (rule nearest_grid)
      then show ?thesis by (simp add: y_def)
    qed
  qed
qed

lemma nearest_idem: "nearest (nearest x) = nearest x"
proof -
  consider "0 < x" | "x = 0" | "x < 0" by linarith
  then show ?thesis
  proof cases
    case 1
    then show ?thesis by (rule nearest_idem_pos)
  next
    case 2
    then show ?thesis by simp
  next
    case 3
    then have "nearest (nearest (- x)) = nearest (- x)" by (intro nearest_idem_pos) simp
    then show ?thesis by (simp add: nearest_neg)
  qed
qed

lemma number_value_mono:
  assumes "x \<le> y"
  shows "number_value x \<le> number_value y"
proof -
  have "(0::rat) < 2 powi 1024" by simp
  then show ?thesis
    using nearest_mono [OF assms]
    by (auto simp add: number_value_def Let_def)
qed

lemma number_value_idem:
  assumes "number_value x = Fin y"
  shows "number_value y = Fin y"
proof -
  have "y = nearest x" and "\<not> 2 powi 1024 \<le> y" and "\<not> y \<le> - (2 powi 1024)"
    using assms by (auto simp add: number_value_def Let_def split: if_splits)
  then show ?thesis
    using nearest_idem [of x] by (simp add: number_value_def Let_def)
qed

lemma number_value_grid:
  assumes "x = of_int m * 2 powi ulp_exponent x" and "\<bar>x\<bar> < 2 powi 1024"
  shows "number_value x = Fin x"
  using nearest_grid [OF assms(1)] assms(2) by (simp add: number_value_def Let_def abs_less_iff)

lemma number_value_zero [simp]: "number_value 0 = Fin 0"
  by (simp add: number_value_def)

lemma number_value_int:
  assumes "\<bar>n\<bar> < 2 ^ 53"
  shows "number_value (of_int n) = Fin (of_int n)"
proof (cases "n = 0")
  case True
  then show ?thesis by simp
next
  case False
  define x :: rat where "x = \<bar>of_int n\<bar>"
  define e where "e = ulp_exponent (of_int n)"
  have x1: "1 \<le> x" using False by (simp add: x_def flip: of_int_abs)
  have "x < of_int (2 ^ 53)" using assms unfolding x_def of_int_abs [symmetric] of_int_less_iff .
  then have x2: "x < 2 powi 53" by (simp add: power_int_def)
  have pos: "0 < x" using x1 by simp
  have "(2::rat) powi ilog2 x < 2 powi 53" using ilog2_bounds(1) [OF pos] x2 by linarith
  then have "ilog2 x < 53" by (rule pow2_less_cancel)
  moreover have "(2::rat) powi 0 < 2 powi (ilog2 x + 1)"
    using ilog2_bounds(2) [OF pos] x1 by simp
  then have "0 < ilog2 x + 1" by (rule pow2_less_cancel)
  ultimately have e: "e \<le> 0" "- 52 \<le> e"
    by (simp_all add: e_def ulp_exponent_def x_def)
  have "(1::rat) = 2 powi (- e) * 2 powi e" using pow2_add [of "- e" e] by simp
  moreover have "(2::rat) powi (- e) = of_int (2 ^ nat (- e))"
    using e by (simp add: power_int_def)
  ultimately have "(of_int n :: rat) = of_int (n * 2 ^ nat (- e)) * 2 powi e"
    by (simp add: mult.assoc)
  moreover have "\<bar>of_int n :: rat\<bar> < 2 powi 1024"
  proof -
    have "(2::rat) powi 53 < 2 powi 1024" by (rule pow2_strict_mono) simp
    with x2 show ?thesis by (simp add: x_def)
  qed
  ultimately show ?thesis unfolding e_def by (rule number_value_grid)
qed

section \<open>Certificates of a rounding\<close>

text \<open>
  A rounding is checked from a certificate: the binary exponent \<open>k\<close> of \<open>x\<close>, the
  exponent \<open>e\<close> of the unit in the last place, and the integer \<open>n\<close> that
  \<open>x / 2 ^ e\<close> is less than one half away from (or the integer \<open>m\<close> of the tie
  \<open>m + 1/2\<close>). Beyond \<open>2 ^ 1024\<close> the number value is an infinity.
\<close>

lemma number_value_eqI:
  assumes "2 powi k \<le> \<bar>x\<bar>" and "\<bar>x\<bar> < 2 powi (k + 1)"
    and "e = max k (- 1022) - 52"
    and "\<bar>x / 2 powi e - of_int n\<bar> < 1 / 2"
    and "y = of_int n * 2 powi e" and "\<bar>y\<bar> < 2 powi 1024"
  shows "number_value x = Fin y"
proof -
  have k: "ilog2 \<bar>x\<bar> = k" using assms(1,2) by (rule ilog2_unique)
  have e: "ulp_exponent x = e" by (simp add: ulp_exponent_def k assms(3))
  have "(0::rat) < 2 powi k" by simp
  with assms(1) have "0 < \<bar>x\<bar>" by linarith
  then have "x \<noteq> 0" by simp
  moreover have "round_even (x / 2 powi e) = n" using assms(4) by (rule round_even_near)
  moreover note \<open>x \<noteq> 0\<close>
  ultimately have "nearest x = y" by (simp add: nearest_def e assms(5))
  then show ?thesis using assms(6) by (simp add: number_value_def Let_def abs_less_iff)
qed

lemma number_value_tieI:
  assumes "2 powi k \<le> \<bar>x\<bar>" and "\<bar>x\<bar> < 2 powi (k + 1)"
    and "e = max k (- 1022) - 52"
    and "x / 2 powi e = of_int m + 1 / 2"
    and "y = of_int (if even m then m else m + 1) * 2 powi e" and "\<bar>y\<bar> < 2 powi 1024"
  shows "number_value x = Fin y"
proof -
  have k: "ilog2 \<bar>x\<bar> = k" using assms(1,2) by (rule ilog2_unique)
  have e: "ulp_exponent x = e" by (simp add: ulp_exponent_def k assms(3))
  have "(0::rat) < 2 powi k" by simp
  with assms(1) have "0 < \<bar>x\<bar>" by linarith
  then have "x \<noteq> 0" by simp
  moreover have "round_even (x / 2 powi e) = (if even m then m else m + 1)"
    using assms(4) by (rule round_even_tie)
  ultimately have "nearest x = y" by (simp add: nearest_def e assms(5))
  then show ?thesis using assms(6) by (simp add: number_value_def Let_def abs_less_iff)
qed

lemma nearest_pow2_1024: "nearest (2 powi 1024) = 2 powi 1024"
proof (rule nearest_grid)
  have "(2::rat) powi 1024 < 2 powi (1024 + 1)" by (rule pow2_strict_mono) simp
  then have "ilog2 \<bar>2 powi 1024 :: rat\<bar> = 1024" by (intro ilog2_unique) simp_all
  then have "ulp_exponent (2 powi 1024) = 972" by (simp add: ulp_exponent_def)
  then show "(2::rat) powi 1024 = of_int (2 ^ nat 52) * 2 powi ulp_exponent (2 powi 1024)"
    using pow2_grid [of 972 1024] by simp
qed

lemma number_value_overflow:
  assumes "2 powi 1024 \<le> x"
  shows "number_value x = PInf"
proof -
  have "2 powi 1024 \<le> nearest x"
    using nearest_mono [OF assms] by (simp only: nearest_pow2_1024)
  then show ?thesis by (simp only: number_value_def Let_def if_True)
qed

lemma clamp_neg:
  fixes B y :: rat
  assumes "0 < B"
  shows "(if B \<le> - y then PInf else if - y \<le> - B then NInf else Fin (- y))
    = js_neg (if B \<le> y then PInf else if y \<le> - B then NInf else Fin y)"
  using assms by auto

lemma number_value_neg: "number_value (- x) = js_neg (number_value x)"
  unfolding number_value_def Let_def nearest_neg
  by (rule clamp_neg) (rule zero_less_power_int, simp)

lemma number_value_underflow:
  assumes "x \<le> - (2 powi 1024)"
  shows "number_value x = NInf"
proof -
  have "2 powi 1024 \<le> - x" using assms by linarith
  then have "js_neg (number_value x) = PInf"
    by (simp only: number_value_overflow flip: number_value_neg)
  then show ?thesis by (cases "number_value x") simp_all
qed

lemma floor_rat_numeral [simp]:
  "\<lfloor>numeral a / numeral b :: rat\<rfloor> = numeral a div numeral b"
  using floor_divide_of_int_eq [of "numeral a" "numeral b", where ?'a = rat] by simp

lemma number_value_numeral [simp]:
  "(numeral w :: int) < 2 ^ 53 \<Longrightarrow> number_value (numeral w) = Fin (numeral w)"
  using number_value_int [of "numeral w"] by simp

lemma number_value_one [simp]: "number_value 1 = Fin 1"
  using number_value_int [of 1] by simp

lemmas ieee_defs = competitorTurnoverEvents_ieee_def inforceTurnoverEvents_ieee_def
  idleTimeCost_ieee_def onboardingCost_ieee_def rampUpCost_ieee_def costPerEvent_ieee_def
  competitorTotal_ieee_def inforceTotal_ieee_def savings_ieee_def savingsPercentage_ieee_def
  js_add_def js_sub_def js_mul_def js_div_def

section \<open>Numbers in a range\<close>

text \<open>
  Products and sums of numbers between 0 and a power of two are again such numbers:
  they do not overflow.
\<close>

lemma in_rangeE:
  assumes "in_range B v"
  obtains y where "v = Fin y" and "0 \<le> y" and "y \<le> B"
  using assms by (cases v) (simp_all add: in_range_def)

lemma in_range_Fin [simp]: "in_range B (Fin y) = (0 \<le> y \<and> y \<le> B)"
  by (simp add: in_range_def)

lemma in_range_mono: "in_range B v \<Longrightarrow> B \<le> B' \<Longrightarrow> in_range B' v"
  by (cases v) (simp_all add: in_range_def)

lemma number_value_pow2:
  assumes "0 \<le> j" and "j \<le> 1023"
  shows "number_value (2 powi j) = Fin (2 powi j)"
proof (rule number_value_grid)
  have "(2::rat) powi j < 2 powi (j + 1)" by (rule pow2_strict_mono) simp
  then have "ilog2 \<bar>2 powi j :: rat\<bar> = j" by (intro ilog2_unique) simp_all
  then have "ulp_exponent (2 powi j) = j - 52" using assms by (simp add: ulp_exponent_def)
  then show "(2::rat) powi j = of_int (2 ^ nat 52) * 2 powi ulp_exponent (2 powi j)"
    using pow2_grid [of "j - 52" j] by simp
  have "(2::rat) powi j < 2 powi 1024" using assms by (intro pow2_strict_mono) simp
  then show "\<bar>2 powi j :: rat\<bar> < 2 powi 1024" by simp
qed

lemma number_value_in_range:
  assumes "0 \<le> x" and "x \<le> 2 powi j" and "0 \<le> j" and "j \<le> 1023"
  shows "in_range (2 powi j) (number_value x)"
proof -
  have "number_value 0 \<le> number_value x" using assms(1) by (rule number_value_mono)
  moreover have "number_value x \<le> number_value (2 powi j)"
    using assms(2) by (rule number_value_mono)
  ultimately show ?thesis
    by (cases "number_value x") (simp_all add: number_value_pow2 [OF assms(3,4)])
qed

lemma number_value_between:
  assumes "number_value lo = Fin lo" and "number_value hi = Fin hi"
    and "lo \<le> x" and "x \<le> hi"
  obtains y where "number_value x = Fin y" and "lo \<le> y" and "y \<le> hi"
proof -
  have "number_value lo \<le> number_value x" using assms(3) by (rule number_value_mono)
  moreover have "number_value x \<le> number_value hi" using assms(4) by (rule number_value_mono)
  ultimately show ?thesis
    using that by (cases "number_value x") (simp_all add: assms(1,2))
qed

lemma js_mul_in_range:
  assumes "in_range (2 powi i) a" and "in_range (2 powi j) b"
    and "0 \<le> i" and "0 \<le> j" and "i + j \<le> 1023"
  shows "in_range (2 powi (i + j)) (js_mul a b)"
proof -
  obtain x where a: "a = Fin x" "0 \<le> x" "x \<le> 2 powi i" using assms(1) by (rule in_rangeE)
  obtain y where b: "b = Fin y" "0 \<le> y" "y \<le> 2 powi j" using assms(2) by (rule in_rangeE)
  have "x * y \<le> 2 powi i * 2 powi j" using a b by (intro mult_mono) simp_all
  then have "x * y \<le> 2 powi (i + j)" by (simp add: pow2_add)
  moreover have "0 \<le> x * y" using a b by simp
  ultimately show ?thesis
    using assms(3-5) by (simp add: js_mul_def a b number_value_in_range)
qed

lemma js_add_in_range:
  assumes "in_range (2 powi i) a" and "in_range (2 powi i) b" and "0 \<le> i" and "i + 1 \<le> 1023"
  shows "in_range (2 powi (i + 1)) (js_add a b)"
proof -
  obtain x where a: "a = Fin x" "0 \<le> x" "x \<le> 2 powi i" using assms(1) by (rule in_rangeE)
  obtain y where b: "b = Fin y" "0 \<le> y" "y \<le> 2 powi i" using assms(2) by (rule in_rangeE)
  have "x + y \<le> 2 powi i * 2 powi 1" using a b by simp
  then have "x + y \<le> 2 powi (i + 1)" by (simp only: pow2_add)
  moreover have "0 \<le> x + y" using a b by simp
  ultimately show ?thesis
    using assms(3,4) by (simp add: js_add_def a b number_value_in_range)
qed

lemma Math_round_in_range:
  assumes "in_range (2 powi j) v" and "0 \<le> j"
  shows "in_range (2 powi j) (Math_round v)"
proof -
  obtain y where v: "v = Fin y" "0 \<le> y" "y \<le> 2 powi j" using assms(1) by (rule in_rangeE)
  have p: "(2::rat) powi j = of_int (2 ^ nat j)" using assms(2) by (simp add: power_int_def)
  have "y + 1 / 2 < of_int (2 ^ nat j) + 1" using v(3) p by simp
  then have "\<lfloor>y + 1 / 2\<rfloor> < 2 ^ nat j + 1" by (simp only: floor_less_iff of_int_add of_int_1)
  then have "(of_int \<lfloor>y + 1 / 2\<rfloor> :: rat) \<le> of_int (2 ^ nat j)"
    by (simp only: of_int_le_iff)
  moreover have "0 \<le> \<lfloor>y + 1 / 2\<rfloor>" using v(2) by simp
  ultimately show ?thesis by (simp add: v p)
qed

section \<open>Ranges of the getters\<close>

text \<open>
  With a valid experience level and inputs between 0 and \<open>2 ^ 30\<close>, \<open>costPerEvent\<close>
  and the turnover event counts are finite, and InForce has no more events than the
  competitor.
\<close>

lemma number_value_half: "number_value (1 / 2) = Fin (1 / 2)"
  by (rule number_value_eqI [where k = "- 1" and e = "- 53" and n = "4503599627370496"])
     (simp_all add: power_int_minus)

lemma productivityGap_ieee: "js_sub (number_value 1) (number_value (5 / 10)) = Fin (1 / 2)"
  by (simp add: js_sub_def minus_jsnum_def number_value_half)

lemma rampUpDays_valid:
  assumes "experienceLevel c \<in> {''junior'', ''mixed'', ''senior''}"
  obtains days :: int where "rampUpDays c = Number (Fin (of_int days))"
    and "days \<in> {60, 45, 30}"
proof -
  let ?d = "if experienceLevel c = ''junior'' then 60
    else if experienceLevel c = ''mixed'' then 45 else (30::int)"
  have "rampUpDays c = Number (Fin (of_int ?d))" using assms by (auto simp add: rampUpDays_own)
  moreover have "?d \<in> {60, 45, 30}" by simp
  ultimately show ?thesis by (rule that)
qed

lemma rampUpWeeks_ieee:
  assumes "experienceLevel c \<in> {''junior'', ''mixed'', ''senior''}"
  obtains k :: int where
    "js_mul (js_div (ToNumber (rampUpDays c)) (number_value 5)) hoursPerWeek = Fin (of_int k)"
    and "k \<in> {480, 360, 240}"
proof -
  obtain days :: int where d: "rampUpDays c = Number (Fin (of_int days))" "days \<in> {60, 45, 30}"
    using assms by (rule rampUpDays_valid)
  let ?k = "days div 5 * 40"
  have "js_mul (js_div (ToNumber (rampUpDays c)) (number_value 5)) hoursPerWeek = Fin (of_int ?k)"
    using d by (auto simp add: js_mul_def js_div_def hoursPerWeek_def)
  moreover have "?k \<in> {480, 360, 240}" using d(2) by auto
  ultimately show ?thesis by (rule that)
qed

lemma costPerEvent_in_range:
  assumes level: "experienceLevel c \<in> {''junior'', ''mixed'', ''senior''}"
    and h: "0 \<le> hourlyRate c" "hourlyRate c \<le> 2 powi 30"
  shows "in_range (2 powi 41) (costPerEvent_ieee c)"
proof -
  define r where "r = number_value (hourlyRate c)"
  have r: "in_range (2 powi 30) r"
    unfolding r_def using h by (intro number_value_in_range) simp_all
  have one: "in_range (2 powi 0) (Fin 1)" by simp
  have c80: "in_range (2 powi 9) (Fin 80)" and c40: "in_range (2 powi 9) (Fin 40)"
    and half: "in_range (2 powi 0) (Fin (1 / 2))" by simp_all
  have idle: "in_range (2 powi 39) (idleTimeCost_ieee c)"
    using js_mul_in_range [OF js_mul_in_range [OF c80 r] one]
    by (simp add: idleTimeCost_ieee_def constant_defs js_mul_def [of "Fin 2"] r_def)
  have onb: "in_range (2 powi 39) (onboardingCost_ieee c)"
    using js_mul_in_range [OF js_mul_in_range [OF c40 r] one]
    by (simp add: onboardingCost_ieee_def constant_defs js_div_def [of "Fin 5"]
        js_mul_def [of "Fin 1"] r_def)
  obtain k :: int where k:
    "js_mul (js_div (ToNumber (rampUpDays c)) (number_value 5)) hoursPerWeek = Fin (of_int k)"
    "k \<in> {480, 360, 240}"
    using level by (rule rampUpWeeks_ieee)
  have ck: "in_range (2 powi 9) (Fin (of_int k))" using k(2) by auto
  have ramp: "in_range (2 powi 39) (rampUpCost_ieee c)"
    using js_mul_in_range [OF js_mul_in_range [OF ck r] half]
    by (simp add: rampUpCost_ieee_def Let_def k(1) [simplified] productivityGap_ieee [simplified]
        r_def)
  have "in_range (2 powi (39 + 1)) (js_add (idleTimeCost_ieee c) (onboardingCost_ieee c))"
    using idle onb by (rule js_add_in_range) simp_all
  then have "in_range (2 powi 40) (js_add (idleTimeCost_ieee c) (onboardingCost_ieee c))"
    by simp
  moreover have "in_range (2 powi 40) (rampUpCost_ieee c)"
    using ramp by (rule in_range_mono) (rule pow2_mono, simp)
  ultimately have "in_range (2 powi (40 + 1)) (costPerEvent_ieee c)"
    unfolding costPerEvent_ieee_def by (rule js_add_in_range) simp_all
  then show ?thesis by simp
qed

lemma number_value_competitorTurnover:
  "number_value competitorTurnover = Fin (5404319552844595 / 18014398509481984)"
  unfolding competitorTurnover_def
  by (rule number_value_eqI [where k = "- 2" and e = "- 54" and n = "5404319552844595"])
     (simp_all add: power_int_minus)

lemma number_value_inForceTurnover:
  "number_value inForceTurnover = Fin (3602879701896397 / 72057594037927936)"
  unfolding inForceTurnover_def
  by (rule number_value_eqI [where k = "- 5" and e = "- 57" and n = "7205759403792794"])
     (simp_all add: power_int_minus)

lemma number_value_range_30:
  assumes "0 \<le> x" and "x \<le> 2 powi 30"
  obtains y where "number_value x = Fin y" and "0 \<le> y" and "y \<le> 2 powi 30"
  using number_value_in_range [OF assms, simplified] that by (auto elim: in_rangeE)

lemma number_value_below:
  assumes "0 \<le> x" and "x \<le> y" and "number_value y = Fin b"
  obtains a where "number_value x = Fin a" and "0 \<le> a" and "a \<le> b"
proof -
  have "number_value 0 \<le> number_value x" using assms(1) by (rule number_value_mono)
  moreover have "number_value x \<le> number_value y" using assms(2) by (rule number_value_mono)
  ultimately show ?thesis
    using that by (cases "number_value x") (simp_all add: assms(3))
qed

lemma turnover_events_in_range:
  assumes t: "0 \<le> teamSize c" "teamSize c \<le> 2 powi 30"
    and d: "0 \<le> projectDuration c" "projectDuration c \<le> 2 powi 30"
  obtains ie ce :: rat where "inforceTurnoverEvents_ieee c = Fin ie"
    and "competitorTurnoverEvents_ieee c = Fin ce"
    and "0 \<le> ie" and "ie \<le> ce" and "ce \<le> 2 powi 60"
proof -
  let ?r30 = "5404319552844595 / 18014398509481984 :: rat"
  let ?r5 = "3602879701896397 / 72057594037927936 :: rat"
  obtain tt where tt: "number_value (teamSize c) = Fin tt" "0 \<le> tt" "tt \<le> 2 powi 30"
    using t by (rule number_value_range_30)
  obtain dd where dd: "number_value (projectDuration c) = Fin dd" "0 \<le> dd" "dd \<le> 2 powi 30"
    using d by (rule number_value_range_30)
  have "?r30 * tt \<le> 1 * 2 powi 30" using tt by (intro mult_mono) simp_all
  then have b30: "0 \<le> ?r30 * tt" "?r30 * tt \<le> 2 powi 30" using tt(2) by simp_all
  obtain a30 where a30: "number_value (?r30 * tt) = Fin a30" "0 \<le> a30" "a30 \<le> 2 powi 30"
    using b30 by (rule number_value_range_30)
  have "0 \<le> ?r5 * tt" using tt(2) by simp
  moreover have "?r5 * tt \<le> ?r30 * tt" using tt(2) by (intro mult_right_mono) simp_all
  ultimately obtain a5 where a5: "number_value (?r5 * tt) = Fin a5" "0 \<le> a5" "a5 \<le> a30"
    using a30(1) by (rule number_value_below)
  have bq: "0 \<le> dd / 12" "dd / 12 \<le> 2 powi 30" using dd by simp_all
  obtain q where q: "number_value (dd / 12) = Fin q" "0 \<le> q" "q \<le> 2 powi 30"
    using bq by (rule number_value_range_30)
  have "a30 * q \<le> 2 powi 30 * 2 powi 30" using a30 q by (intro mult_mono) simp_all
  then have "a30 * q \<le> 2 powi 60" by simp
  moreover have "0 \<le> a30 * q" using a30 q by simp
  ultimately have "in_range (2 powi 60) (number_value (a30 * q))"
    by (intro number_value_in_range) simp_all
  then obtain e30 where e30: "number_value (a30 * q) = Fin e30" "0 \<le> e30" "e30 \<le> 2 powi 60"
    by (rule in_rangeE)
  have "0 \<le> a5 * q" using a5 q by simp
  moreover have "a5 * q \<le> a30 * q" using a5 q by (intro mult_right_mono) simp_all
  ultimately obtain e5 where e5: "number_value (a5 * q) = Fin e5" "0 \<le> e5" "e5 \<le> e30"
    using e30(1) by (rule number_value_below)
  have A30: "js_mul (number_value competitorTurnover) (number_value (teamSize c)) = Fin a30"
    by (simp only: number_value_competitorTurnover tt js_mul_def times_jsnum.simps
        rounded.simps a30(1))
  have A5: "js_mul (number_value inForceTurnover) (number_value (teamSize c)) = Fin a5"
    by (simp only: number_value_inForceTurnover tt js_mul_def times_jsnum.simps
        rounded.simps a5(1))
  have Q: "js_div (number_value (projectDuration c)) (number_value 12) = Fin q"
    using q(1) by (simp add: js_div_def dd)
  have E30: "js_mul (Fin a30) (Fin q) = Fin e30" and E5: "js_mul (Fin a5) (Fin q) = Fin e5"
    by (simp_all only: js_mul_def times_jsnum.simps rounded.simps e30(1) e5(1))
  have ce: "competitorTurnoverEvents_ieee c = Fin (of_int \<lfloor>e30 + 1 / 2\<rfloor>)"
    by (simp only: competitorTurnoverEvents_ieee_def Let_def A30 Q E30 Math_round.simps)
  have ie: "inforceTurnoverEvents_ieee c = Fin (of_int \<lfloor>e5 + 1 / 2\<rfloor>)"
    by (simp only: inforceTurnoverEvents_ieee_def Let_def A5 Q E5 Math_round.simps)
  have "in_range (2 powi 60) (Math_round (Fin e30))"
    using e30 by (intro Math_round_in_range) simp_all
  then have hi: "(of_int \<lfloor>e30 + 1 / 2\<rfloor> :: rat) \<le> 2 powi 60" by simp
  have lo: "(0::rat) \<le> of_int \<lfloor>e5 + 1 / 2\<rfloor>" using e5(2) by simp
  have "\<lfloor>e5 + 1 / 2\<rfloor> \<le> \<lfloor>e30 + 1 / 2\<rfloor>" using e5(3) by (intro floor_mono) simp
  then have le: "(of_int \<lfloor>e5 + 1 / 2\<rfloor> :: rat) \<le> of_int \<lfloor>e30 + 1 / 2\<rfloor>" by simp
  from ie ce lo le hi show ?thesis by (rule that)
qed

section \<open>Bounded inputs\<close>

text \<open>
  With a valid experience level and inputs between 0 and \<open>10 ^ 9\<close> every getter returns
  a finite number.
\<close>

lemma bounded_totals:
  assumes level: "experienceLevel c \<in> {''junior'', ''mixed'', ''senior''}"
    and h: "0 \<le> hourlyRate c" "hourlyRate c \<le> 10 ^ 9"
    and t: "0 \<le> teamSize c" "teamSize c \<le> 10 ^ 9"
    and d: "0 \<le> projectDuration c" "projectDuration c \<le> 10 ^ 9"
  obtains ie ce ct it s p :: rat where
    "inforceTurnoverEvents_ieee c = Fin ie" and "competitorTurnoverEvents_ieee c = Fin ce"
    and "0 \<le> ie" and "ie \<le> ce"
    and "competitorTotal_ieee c = Fin ct" and "inforceTotal_ieee c = Fin it"
    and "0 \<le> it" and "it \<le> ct"
    and "savings_ieee c = Fin s" and "0 \<le> s" and "s \<le> ct"
    and "savingsPercentage_ieee c = Fin p" and "0 \<le> p" and "p \<le> 100"
proof -
  have h': "hourlyRate c \<le> 2 powi 30" and t': "teamSize c \<le> 2 powi 30"
    and d': "projectDuration c \<le> 2 powi 30"
    using h(2) t(2) d(2) by simp_all
  obtain ie ce :: rat where ev: "inforceTurnoverEvents_ieee c = Fin ie"
    "competitorTurnoverEvents_ieee c = Fin ce" "0 \<le> ie" "ie \<le> ce" "ce \<le> 2 powi 60"
    using t(1) t' d(1) d' by (rule turnover_events_in_range)
  obtain cost where cost: "costPerEvent_ieee c = Fin cost" "0 \<le> cost" "cost \<le> 2 powi 41"
    using costPerEvent_in_range [OF level h(1) h'] by (rule in_rangeE)
  have "ce * cost \<le> 2 powi 60 * 2 powi 41" using ev cost by (intro mult_mono) simp_all
  then have "ce * cost \<le> 2 powi 101" by simp
  moreover have ce0: "0 \<le> ce * cost" using ev cost by simp
  ultimately have "in_range (2 powi 101) (number_value (ce * cost))"
    by (intro number_value_in_range) simp_all
  then obtain ct where ct: "number_value (ce * cost) = Fin ct" "0 \<le> ct" by (rule in_rangeE)
  have "0 \<le> ie * cost" using ev cost by simp
  moreover have "ie * cost \<le> ce * cost" using ev cost by (intro mult_right_mono) simp_all
  ultimately obtain it where it: "number_value (ie * cost) = Fin it" "0 \<le> it" "it \<le> ct"
    using ct(1) by (rule number_value_below)
  have CT: "competitorTotal_ieee c = Fin ct"
    by (simp only: competitorTotal_ieee_def ev cost js_mul_def times_jsnum.simps rounded.simps ct)
  have IT: "inforceTotal_ieee c = Fin it"
    by (simp only: inforceTotal_ieee_def ev cost js_mul_def times_jsnum.simps rounded.simps it)
  have ctfix: "number_value ct = Fin ct" using ct(1) by (rule number_value_idem)
  have "0 \<le> ct - it" "ct - it \<le> ct" using it by simp_all
  then obtain s where s: "number_value (ct - it) = Fin s" "0 \<le> s" "s \<le> ct"
    using ctfix by (rule number_value_below)
  have S: "savings_ieee c = Fin s"
    using s(1) by (simp add: savings_ieee_def CT IT js_sub_def minus_jsnum_def)
  obtain p where p: "savingsPercentage_ieee c = Fin p" "0 \<le> p" "p \<le> 100"
  proof (cases "ct = 0")
    case True
    then have "savingsPercentage_ieee c = Fin 0"
      by (simp add: savingsPercentage_ieee_def CT strict_eq_def)
    then show ?thesis using that by simp
  next
    case False
    with ct(2) have pos: "0 < ct" by simp
    have r01: "0 \<le> s / ct" "s / ct \<le> 1" using s pos by simp_all
    obtain r where r: "number_value (s / ct) = Fin r" "0 \<le> r" "r \<le> 1"
      using r01 number_value_one by (rule number_value_below)
    have "0 \<le> r * 100" "r * 100 \<le> 100" using r by simp_all
    moreover have "number_value 100 = Fin 100" by simp
    ultimately obtain p where p: "number_value (r * 100) = Fin p" "0 \<le> p" "p \<le> 100"
      by (rule number_value_below)
    have "js_div (savings_ieee c) (competitorTotal_ieee c) = Fin r"
      using False by (simp add: S CT js_div_def r(1))
    then have "savingsPercentage_ieee c = Fin p"
      using False by (simp add: savingsPercentage_ieee_def CT strict_eq_def js_mul_def p(1))
    then show ?thesis using p(2,3) by (rule that)
  qed
  from ev(1-4) CT IT it(2,3) S s(2,3) p show ?thesis by (rule that)
qed

section \<open>Whole hourly rates\<close>

text \<open>
  With a whole hourly rate up to 1,000,000 no operation of \<open>costPerEvent\<close> rounds: it is
  360, 300 or 240 times the rate.
\<close>

lemma js_mul_int:
  assumes "\<bar>i * j\<bar> < 2 ^ 53"
  shows "js_mul (Fin (of_int i)) (Fin (of_int j)) = Fin (of_int (i * j))"
  using number_value_int [OF assms] by (simp add: js_mul_def)

lemma js_add_int:
  assumes "\<bar>i + j\<bar> < 2 ^ 53"
  shows "js_add (Fin (of_int i)) (Fin (of_int j)) = Fin (of_int (i + j))"
  using number_value_int [OF assms] by (simp add: js_add_def)

lemma js_mul_half:
  assumes "\<bar>i\<bar> < 2 ^ 53"
  shows "js_mul (Fin (of_int (2 * i))) (Fin (1 / 2)) = Fin (of_int i)"
  using number_value_int [OF assms] by (simp add: js_mul_def)

lemma rampUpCost_whole:
  assumes weeks: "js_mul (js_div (ToNumber (rampUpDays c)) (Fin 5)) (Fin 40) = Fin (of_int (2 * k))"
    and k: "0 < k" "k \<le> 240"
    and r: "number_value (hourlyRate c) = Fin (of_int a)" and a: "0 \<le> a" "a \<le> 1000000"
  shows "rampUpCost_ieee c = Fin (of_int (k * a))"
proof -
  have "k * a \<le> 240 * 1000000" using k a by (intro mult_mono) simp_all
  moreover have "0 \<le> k * a" using k a by simp
  ultimately have ka: "\<bar>k * a\<bar> < 2 ^ 53" "\<bar>2 * k * a\<bar> < 2 ^ 53" by simp_all
  have "js_mul (Fin (of_int (2 * k))) (Fin (of_int a)) = Fin (of_int (2 * k * a))"
    using ka(2) by (rule js_mul_int)
  moreover have "js_mul (Fin (of_int (2 * (k * a)))) (Fin (1 / 2)) = Fin (of_int (k * a))"
    using ka(1) by (rule js_mul_half)
  ultimately show ?thesis
    by (simp add: rampUpCost_ieee_def hoursPerWeek_def weeks r productivityGap_ieee [simplified]
        mult.assoc)
qed

lemma costPerEvent_whole:
  assumes level: "experienceLevel c \<in> {''junior'', ''mixed'', ''senior''}"
    and a: "hourlyRate c = of_int a" "0 \<le> a" "a \<le> 1000000"
  shows "costPerEvent_ieee c =
    Fin (of_int ((if experienceLevel c = ''junior'' then 360
                  else if experienceLevel c = ''mixed'' then 300 else 240) * a))"
proof -
  have r: "number_value (hourlyRate c) = Fin (of_int a)"
    unfolding a(1) using a(2,3) by (intro number_value_int) simp
  have m80: "js_mul (Fin 80) (Fin (of_int a)) = Fin (of_int (80 * a))"
    using js_mul_int [of 80 a] a(2,3) by simp
  have m40: "js_mul (Fin 40) (Fin (of_int a)) = Fin (of_int (40 * a))"
    using js_mul_int [of 40 a] a(2,3) by simp
  have one: "js_mul (Fin (of_int i)) (Fin 1) = Fin (of_int i)" if "\<bar>i\<bar> < 2 ^ 53" for i
    using js_mul_int [of i 1] that by simp
  have idle: "idleTimeCost_ieee c = Fin (of_int (80 * a))"
    using one [of "80 * a"] a(2,3)
    by (simp add: idleTimeCost_ieee_def constant_defs js_mul_def [of "Fin 2"] r m80)
  have onb: "onboardingCost_ieee c = Fin (of_int (40 * a))"
    using one [of "40 * a"] a(2,3)
    by (simp add: onboardingCost_ieee_def constant_defs js_div_def [of "Fin 5"]
        js_mul_def [of "Fin 1" "Fin 40"] r m40)
  have sum1: "js_add (idleTimeCost_ieee c) (onboardingCost_ieee c) = Fin (of_int (120 * a))"
    using js_add_int [of "80 * a" "40 * a"] a(2,3) by (simp add: idle onb)
  have sum2: "js_add (Fin (of_int (120 * a))) (Fin (of_int (k * a))) = Fin (of_int ((120 + k) * a))"
    if "0 < k" "k \<le> 240" for k
  proof -
    have "k * a \<le> 240 * 1000000" using that a(2,3) by (intro mult_mono) simp_all
    moreover have "0 \<le> k * a" using that a(2) by simp
    ultimately have "\<bar>120 * a + k * a\<bar> < 2 ^ 53" using a(2,3) by simp
    then show ?thesis using js_add_int [of "120 * a" "k * a"] by (simp add: algebra_simps)
  qed
  consider "experienceLevel c = ''junior''" | "experienceLevel c = ''mixed''"
    | "experienceLevel c = ''senior''" using level by auto
  then show ?thesis
  proof cases
    case 1
    then have "js_mul (js_div (ToNumber (rampUpDays c)) (Fin 5)) (Fin 40) = Fin (of_int (2 * 240))"
      by (simp add: rampUpDays_own js_mul_def js_div_def)
    then have "rampUpCost_ieee c = Fin (of_int (240 * a))"
      using r a(2,3) by (intro rampUpCost_whole) simp_all
    then show ?thesis using 1 sum2 [of 240] by (simp add: costPerEvent_ieee_def sum1)
  next
    case 2
    then have "js_mul (js_div (ToNumber (rampUpDays c)) (Fin 5)) (Fin 40) = Fin (of_int (2 * 180))"
      by (simp add: rampUpDays_own js_mul_def js_div_def)
    then have "rampUpCost_ieee c = Fin (of_int (180 * a))"
      using r a(2,3) by (intro rampUpCost_whole) simp_all
    then show ?thesis using 2 sum2 [of 180] by (simp add: costPerEvent_ieee_def sum1)
  next
    case 3
    then have "js_mul (js_div (ToNumber (rampUpDays c)) (Fin 5)) (Fin 40) = Fin (of_int (2 * 120))"
      by (simp add: rampUpDays_own js_mul_def js_div_def)
    then have "rampUpCost_ieee c = Fin (of_int (120 * a))"
      using r a(2,3) by (intro rampUpCost_whole) simp_all
    then show ?thesis using 3 sum2 [of 120] by (simp add: costPerEvent_ieee_def sum1)
  qed
qed

section \<open>The roundings of the scenarios\<close>

text \<open>
  The roundings that the scenarios of the claims go through, each with its certificate.
\<close>

lemma nv_1: "number_value (3 / 10) = Fin (5404319552844595 / 18014398509481984)"
  by (rule number_value_eqI [where k = "- 2" and e = "- 54" and n = "5404319552844595"])
     (simp_all add: power_int_minus)

lemma nv_2: "number_value (16212958658533785 / 4503599627370496) = Fin (2026619832316723 / 562949953421312)"
  by (rule number_value_tieI [where k = "1" and e = "- 51" and m = "8106479329266892"])
     (simp_all add: power_int_minus)

lemma nv_3: "number_value (3 / 2) = Fin (3 / 2)"
  by (rule number_value_eqI [where k = "0" and e = "- 52" and n = "6755399441055744"])
     (simp_all add: power_int_minus)

lemma nv_4: "number_value (6079859496950169 / 1125899906842624) = Fin (6079859496950169 / 1125899906842624)"
  by (rule number_value_eqI [where k = "2" and e = "- 50" and n = "6079859496950169"])
     (simp_all add: power_int_minus)

lemma nv_5: "number_value (1 / 20) = Fin (3602879701896397 / 72057594037927936)"
  by (rule number_value_eqI [where k = "- 5" and e = "- 57" and n = "7205759403792794"])
     (simp_all add: power_int_minus)

lemma nv_6: "number_value (10808639105689191 / 18014398509481984) = Fin (1351079888211149 / 2251799813685248)"
  by (rule number_value_tieI [where k = "- 1" and e = "- 53" and m = "5404319552844595"])
     (simp_all add: power_int_minus)

lemma nv_7: "number_value (4053239664633447 / 4503599627370496) = Fin (4053239664633447 / 4503599627370496)"
  by (rule number_value_eqI [where k = "- 1" and e = "- 53" and n = "8106479329266894"])
     (simp_all add: power_int_minus)

lemma nv_8: "number_value (1 / 2) = Fin (1 / 2)"
  by (rule number_value_eqI [where k = "- 1" and e = "- 53" and n = "4503599627370496"])
     (simp_all add: power_int_minus)

lemma nv_9: "number_value (4 / 5) = Fin (3602879701896397 / 4503599627370496)"
  by (rule number_value_eqI [where k = "- 1" and e = "- 53" and n = "7205759403792794"])
     (simp_all add: power_int_minus)

lemma nv_10: "number_value (90071992547409925 / 1125899906842624) = Fin (80)"
  by (rule number_value_eqI [where k = "6" and e = "- 46" and n = "5629499534213120"])
     (simp_all add: power_int_minus)

lemma nv_11: "number_value (35 / 12) = Fin (6567749456581973 / 2251799813685248)"
  by (rule number_value_eqI [where k = "1" and e = "- 51" and n = "6567749456581973"])
     (simp_all add: power_int_minus)

lemma nv_12: "number_value (13310331302396406726625548234479 / 1267650600228229401496703205376) = Fin (5910974510923775 / 562949953421312)"
  by (rule number_value_eqI [where k = "3" and e = "- 49" and n = "5910974510923775"])
     (simp_all add: power_int_minus)

lemma nv_13: "number_value (8873554201597606673666851016977 / 5070602400912917605986812821504) = Fin (7881299347898369 / 4503599627370496)"
  by (rule number_value_eqI [where k = "0" and e = "- 52" and n = "7881299347898369"])
     (simp_all add: power_int_minus)

lemma nv_14: "number_value (27021597764222975 / 9007199254740992) = Fin (3)"
  by (rule number_value_eqI [where k = "1" and e = "- 51" and n = "6755399441055744"])
     (simp_all add: power_int_minus)

lemma nv_15: "number_value (9 / 2) = Fin (9 / 2)"
  by (rule number_value_eqI [where k = "2" and e = "- 50" and n = "5066549580791808"])
     (simp_all add: power_int_minus)

lemma nv_16: "number_value (18014398509481985 / 36028797018963968) = Fin (1 / 2)"
  by (rule number_value_eqI [where k = "- 1" and e = "- 53" and n = "4503599627370496"])
     (simp_all add: power_int_minus)

lemma nv_17: "number_value (3 / 4) = Fin (3 / 4)"
  by (rule number_value_eqI [where k = "- 1" and e = "- 53" and n = "6755399441055744"])
     (simp_all add: power_int_minus)

lemma nv_18: "number_value (2026619832316723 / 1125899906842624) = Fin (2026619832316723 / 1125899906842624)"
  by (rule number_value_eqI [where k = "0" and e = "- 52" and n = "8106479329266892"])
     (simp_all add: power_int_minus)

lemma nv_19: "number_value (1351079888211149 / 4503599627370496) = Fin (1351079888211149 / 4503599627370496)"
  by (rule number_value_eqI [where k = "- 2" and e = "- 54" and n = "5404319552844596"])
     (simp_all add: power_int_minus)

lemma nv_20: "number_value (7036874417766401 / 35184372088832) = Fin (7036874417766401 / 35184372088832)"
  by (rule number_value_eqI [where k = "7" and e = "- 45" and n = "7036874417766401"])
     (simp_all add: power_int_minus)

lemma nv_21: "number_value (35184372088832005 / 2199023255552) = Fin (8796093022208001 / 549755813888)"
  by (rule number_value_eqI [where k = "13" and e = "- 39" and n = "8796093022208001"])
     (simp_all add: power_int_minus)

lemma nv_22: "number_value (8796093022208001 / 549755813888) = Fin (8796093022208001 / 549755813888)"
  by (rule number_value_eqI [where k = "13" and e = "- 39" and n = "8796093022208001"])
     (simp_all add: power_int_minus)

lemma nv_23: "number_value (35184372088832005 / 4398046511104) = Fin (8796093022208001 / 1099511627776)"
  by (rule number_value_eqI [where k = "12" and e = "- 40" and n = "8796093022208001"])
     (simp_all add: power_int_minus)

lemma nv_24: "number_value (8796093022208001 / 1099511627776) = Fin (8796093022208001 / 1099511627776)"
  by (rule number_value_eqI [where k = "12" and e = "- 40" and n = "8796093022208001"])
     (simp_all add: power_int_minus)

lemma nv_25: "number_value (316659348799488045 / 4398046511104) = Fin (4947802324992001 / 68719476736)"
  by (rule number_value_eqI [where k = "16" and e = "- 36" and n = "4947802324992001"])
     (simp_all add: power_int_minus)

lemma nv_26: "number_value (4947802324992001 / 137438953472) = Fin (4947802324992001 / 137438953472)"
  by (rule number_value_eqI [where k = "15" and e = "- 37" and n = "4947802324992001"])
     (simp_all add: power_int_minus)

lemma nv_27: "number_value (26388279066624003 / 1099511627776) = Fin (6597069766656001 / 274877906944)"
  by (rule number_value_eqI [where k = "14" and e = "- 38" and n = "6597069766656001"])
     (simp_all add: power_int_minus)

lemma nv_28: "number_value (16492674416640003 / 274877906944) = Fin (4123168604160001 / 68719476736)"
  by (rule number_value_tieI [where k = "15" and e = "- 37" and m = "8246337208320001"])
     (simp_all add: power_int_minus)

lemma nv_29: "number_value (20615843020800005 / 68719476736) = Fin (5153960755200001 / 17179869184)"
  by (rule number_value_eqI [where k = "18" and e = "- 34" and n = "5153960755200001"])
     (simp_all add: power_int_minus)

lemma nv_30: "number_value (4123168604160001 / 68719476736) = Fin (4123168604160001 / 68719476736)"
  by (rule number_value_eqI [where k = "15" and e = "- 37" and n = "8246337208320002"])
     (simp_all add: power_int_minus)

lemma nv_31: "number_value (16492674416640003 / 68719476736) = Fin (4123168604160001 / 17179869184)"
  by (rule number_value_tieI [where k = "17" and e = "- 35" and m = "8246337208320001"])
     (simp_all add: power_int_minus)

lemma nv_32: "number_value (4123168604160001 / 5153960755200001) = Fin (3602879701896397 / 4503599627370496)"
  by (rule number_value_eqI [where k = "- 1" and e = "- 53" and n = "7205759403792794"])
     (simp_all add: power_int_minus)

lemma nv_33: "number_value (3518437208883201 / 17592186044416) = Fin (3518437208883201 / 17592186044416)"
  by (rule number_value_eqI [where k = "7" and e = "- 45" and n = "7036874417766402"])
     (simp_all add: power_int_minus)

lemma nv_34: "number_value (17592186044416005 / 1099511627776) = Fin (4398046511104001 / 274877906944)"
  by (rule number_value_tieI [where k = "13" and e = "- 39" and m = "8796093022208002"])
     (simp_all add: power_int_minus)

lemma nv_35: "number_value (4398046511104001 / 274877906944) = Fin (4398046511104001 / 274877906944)"
  by (rule number_value_eqI [where k = "13" and e = "- 39" and n = "8796093022208002"])
     (simp_all add: power_int_minus)

lemma nv_36: "number_value (17592186044416005 / 2199023255552) = Fin (4398046511104001 / 549755813888)"
  by (rule number_value_tieI [where k = "12" and e = "- 40" and m = "8796093022208002"])
     (simp_all add: power_int_minus)

lemma nv_37: "number_value (4398046511104001 / 549755813888) = Fin (4398046511104001 / 549755813888)"
  by (rule number_value_eqI [where k = "12" and e = "- 40" and n = "8796093022208002"])
     (simp_all add: power_int_minus)

lemma nv_38: "number_value (158329674399744045 / 2199023255552) = Fin (4947802324992001 / 68719476736)"
  by (rule number_value_eqI [where k = "16" and e = "- 36" and n = "4947802324992001"])
     (simp_all add: power_int_minus)

lemma nv_39: "number_value (13194139533312003 / 549755813888) = Fin (3298534883328001 / 137438953472)"
  by (rule number_value_tieI [where k = "14" and e = "- 38" and m = "6597069766656001"])
     (simp_all add: power_int_minus)

lemma nv_40: "number_value (100000000000000000000000000000000000000000000000000000000000000000000000000000000000000000000000000000000000000000000000000000000000000000000000000000000000000000000000000000000000000000000000000000000000000000000000000000000000000000000000000000000000000000000000000000000000000000000000000000000000000000000) = Fin (100000000000000001097906362944045541740492309677311846336810682903157585404911491537163328978494688899061249669721172515611590283743140088328307009198146046031271664502933027185697489699588559043338384466165001178426897626212945177628091195786707458122783970171784415105291802893207873272974885715430223118336)"
  by (rule number_value_eqI [where k = "1023" and e = "971" and n = "5010420900022432"])
     (simp_all add: power_int_minus)

lemma nv_41: "number_value (8000000000000000087832509035523643339239384774184947706944854632252606832392919322973066318279575111924899973577693801248927222699451207066264560735851683682501733160234642174855799175967084723467070757293200094274151810097035614210247295662936596649822717613742753208423344231456629861837990857234417849466880) = PInf"
  by (rule number_value_overflow) (simp add: power_int_def)

lemma nv_42: "number_value (4000000000000000043916254517761821669619692387092473853472427316126303416196459661486533159139787555962449986788846900624463611349725603533132280367925841841250866580117321087427899587983542361733535378646600047137075905048517807105123647831468298324911358806871376604211672115728314930918995428617208924733440) = PInf"
  by (rule number_value_overflow) (simp add: power_int_def)

lemma nv_43: "number_value (36000000000000000395246290659856395026577231483832264681251845845136730745768136953378798432258088003662049881099622105620172502147530431798190523311332576571257799221055889786851096291851881255601818407819400424233683145436660263946112830483214684924202229261842389437905049041554834378270958857554880322600960) = PInf"
  by (rule number_value_overflow) (simp add: power_int_def)

lemmas nv_facts = nv_1 nv_2 nv_3 nv_4 nv_5 nv_6 nv_7 nv_8 nv_9 nv_10 nv_11 nv_12 nv_13 nv_14 nv_15 nv_16 nv_17 nv_18 nv_19 nv_20 nv_21 nv_22 nv_23 nv_24 nv_25 nv_26 nv_27 nv_28 nv_29 nv_30 nv_31 nv_32 nv_33 nv_34 nv_35 nv_36 nv_37 nv_38 nv_39 nv_40 nv_41 nv_42 nv_43

section \<open>Special values and the scenarios\<close>

text \<open>
  NaN is contagious through the rounded operations as well, and a number value is never
  NaN. The default scenario has the values of the exact reading.
\<close>

lemmas ieee_eval = ieee_defs constant_defs calculator_def rampUpDays_own strict_eq_def
  minus_jsnum_def

lemma times_NaN [simp]: "x * NaN = NaN" for x :: jsnum
  by (cases x) simp_all

lemma plus_NaN [simp]: "x + NaN = NaN" for x :: jsnum
  by (cases x) simp_all

lemma divide_NaN [simp]: "x / NaN = NaN" for x :: jsnum
  by (cases x) simp_all

lemma minus_NaN [simp]: "x - NaN = NaN" "NaN - x = NaN" for x :: jsnum
  by (simp_all add: minus_jsnum_def)

lemma number_value_not_NaN [simp]: "number_value x \<noteq> NaN"
  by (simp add: number_value_def Let_def)

lemma invalid_level_ieee:
  assumes "experienceLevel c \<notin> {''junior'', ''mixed'', ''senior''}"
  shows "rampUpCost_ieee c = NaN" and "costPerEvent_ieee c = NaN"
    and "competitorTotal_ieee c = NaN" and "inforceTotal_ieee c = NaN"
    and "savings_ieee c = NaN" and "savingsPercentage_ieee c = NaN"
proof -
  have "ToNumber (rampUpDays c) = NaN" using assms by (simp add: rampUpDays_own)
  then show ramp: "rampUpCost_ieee c = NaN"
    by (simp add: rampUpCost_ieee_def Let_def js_mul_def js_div_def)
  then show cost: "costPerEvent_ieee c = NaN"
    by (simp add: costPerEvent_ieee_def js_add_def)
  then show ct: "competitorTotal_ieee c = NaN" and it: "inforceTotal_ieee c = NaN"
    by (simp_all add: competitorTotal_ieee_def inforceTotal_ieee_def js_mul_def)
  then show sv: "savings_ieee c = NaN"
    by (simp add: savings_ieee_def js_sub_def)
  with ct show "savingsPercentage_ieee c = NaN"
    by (simp add: savingsPercentage_ieee_def strict_eq_def js_mul_def js_div_def)
qed

lemma default_events_ieee:
  "competitorTurnoverEvents_ieee calculator = Fin 5"
  "inforceTurnoverEvents_ieee calculator = Fin 1"
  by (simp_all add: ieee_eval nv_facts)

lemma default_totals_ieee:
  "costPerEvent_ieee calculator = Fin 60000"
  "competitorTotal_ieee calculator = Fin 300000"
  "inforceTotal_ieee calculator = Fin 60000"
  "savings_ieee calculator = Fin 240000"
  "savingsPercentage_ieee calculator = Fin 80"
  by (simp_all add: ieee_eval nv_facts)

lemma between_Fin:
  assumes "Fin lo \<le> v" and "v \<le> Fin hi"
  obtains x where "v = Fin x" and "lo \<le> x" and "x \<le> hi"
  using assms by (cases v) simp_all

lemma events_whole:
  assumes "Math_round v = Fin x"
  obtains m :: int where "x = of_int m"
  using assms by (cases v) auto

lemma floor_one_half [simp]: "\<lfloor>1 / 2 :: rat\<rfloor> = 0"
  by (simp add: floor_eq_iff)

lemma zero_team_events:
  assumes t: "teamSize c = 0" and d: "\<bar>projectDuration c\<bar> \<le> 10 ^ 9"
  shows "competitorTurnoverEvents_ieee c = Fin 0" and "inforceTurnoverEvents_ieee c = Fin 0"
proof -
  have lo: "number_value (of_int (- 1073741824)) = Fin (of_int (- 1073741824))"
    and hi: "number_value (of_int 1073741824) = Fin (of_int 1073741824)"
    by (rule number_value_int, simp)+
  have "of_int (- 1073741824) \<le> projectDuration c" "projectDuration c \<le> of_int 1073741824"
    using d by simp_all
  with lo hi obtain dd where dd: "number_value (projectDuration c) = Fin dd"
    by (rule number_value_between)
  obtain q where q: "js_div (number_value (projectDuration c)) (Fin 12) = Fin q"
  proof -
    have "number_value (of_int (- 1073741824)) \<le> number_value (projectDuration c)"
      "number_value (projectDuration c) \<le> number_value (of_int 1073741824)"
      using d by (intro number_value_mono, simp)+
    then have b: "of_int (- 1073741824) \<le> dd" "dd \<le> of_int 1073741824"
      by (simp_all only: lo hi dd less_eq_jsnum.simps)
    then have "of_int (- 1073741824) \<le> dd / 12" "dd / 12 \<le> of_int 1073741824" by simp_all
    with lo hi obtain q where "number_value (dd / 12) = Fin q" by (rule number_value_between)
    then have "js_div (number_value (projectDuration c)) (Fin 12) = Fin q"
      by (simp add: js_div_def dd)
    then show ?thesis by (rule that)
  qed
  show "competitorTurnoverEvents_ieee c = Fin 0"
    by (simp add: competitorTurnoverEvents_ieee_def Let_def t q number_value_competitorTurnover
        js_mul_def)
  show "inforceTurnoverEvents_ieee c = Fin 0"
    by (simp add: inforceTurnoverEvents_ieee_def Let_def t q number_value_inForceTurnover
        js_mul_def)
qed

lemma idle_onboarding_numbers:
  shows "idleTimeCost_ieee c \<noteq> NaN" and "onboardingCost_ieee c \<noteq> NaN"
proof -
  have mul: "js_mul (Fin k) v \<noteq> NaN" if "0 < k" "v \<noteq> NaN" for k v
    using that by (cases v) (simp_all add: js_mul_def)
  have one: "js_mul v (Fin 1) \<noteq> NaN" if "v \<noteq> NaN" for v
    using that by (cases v) (simp_all add: js_mul_def)
  show "idleTimeCost_ieee c \<noteq> NaN"
    using one [OF mul [of 80 "number_value (hourlyRate c)"]]
    by (simp add: idleTimeCost_ieee_def constant_defs js_mul_def [of "Fin 2"])
  show "onboardingCost_ieee c \<noteq> NaN"
    using one [OF mul [of 40 "number_value (hourlyRate c)"]]
    by (simp add: onboardingCost_ieee_def constant_defs js_div_def [of "Fin 5"]
        js_mul_def [of "Fin 1" "Fin 40"])
qed


section \<open>Growing hourly rates\<close>

text \<open>
  Every rounded operation of \<open>costPerEvent\<close> and of the totals grows with its
  arguments, as long as they are finite and not negative.
\<close>

lemma js_mul_below:
  assumes "0 \<le> k" and "0 \<le> x" and "x \<le> y" and "js_mul (Fin k) (Fin y) = Fin b"
  obtains a where "js_mul (Fin k) (Fin x) = Fin a" and "0 \<le> a" and "a \<le> b"
proof -
  have "0 \<le> k * x" using assms(1,2) by simp
  moreover have "k * x \<le> k * y" using assms(1,3) by (rule mult_left_mono [rotated])
  moreover have "number_value (k * y) = Fin b" using assms(4) by (simp add: js_mul_def)
  ultimately obtain a where "number_value (k * x) = Fin a" "0 \<le> a" "a \<le> b"
    by (rule number_value_below)
  then show ?thesis using that by (simp add: js_mul_def)
qed

lemma js_mul_below_left:
  assumes "0 \<le> k" and "0 \<le> x" and "x \<le> y" and "js_mul (Fin y) (Fin k) = Fin b"
  obtains a where "js_mul (Fin x) (Fin k) = Fin a" and "0 \<le> a" and "a \<le> b"
proof -
  have "js_mul (Fin k) (Fin y) = Fin b" using assms(4) by (simp add: js_mul_def mult.commute)
  with assms(1-3) obtain a where "js_mul (Fin k) (Fin x) = Fin a" "0 \<le> a" "a \<le> b"
    by (rule js_mul_below)
  then show ?thesis using that by (simp add: js_mul_def mult.commute)
qed

lemma js_add_below:
  assumes "0 \<le> x" and "x \<le> y" and "0 \<le> u" and "u \<le> v"
    and "js_add (Fin y) (Fin v) = Fin b"
  obtains a where "js_add (Fin x) (Fin u) = Fin a" and "0 \<le> a" and "a \<le> b"
proof -
  have "0 \<le> x + u" using assms(1,3) by simp
  moreover have "x + u \<le> y + v" using assms(2,4) by simp
  moreover have "number_value (y + v) = Fin b" using assms(5) by (simp add: js_add_def)
  ultimately obtain a where "number_value (x + u) = Fin a" "0 \<le> a" "a \<le> b"
    by (rule number_value_below)
  then show ?thesis using that by (simp add: js_add_def)
qed

lemma component_below:
  assumes k: "0 \<le> k" "k \<le> 2 powi 9" and g: "0 \<le> g" "g \<le> 1"
    and h: "0 \<le> h" "h \<le> h'" "h' \<le> 2 powi 30"
  obtains a b where "js_mul (js_mul (Fin k) (number_value h)) (Fin g) = Fin a"
    and "js_mul (js_mul (Fin k) (number_value h')) (Fin g) = Fin b"
    and "0 \<le> a" and "a \<le> b" and "b \<le> 2 powi 39"
proof -
  have h0: "0 \<le> h'" using h(1,2) by simp
  obtain r' where r': "number_value h' = Fin r'" "0 \<le> r'" "r' \<le> 2 powi 30"
    using h0 h(3) by (rule number_value_range_30)
  obtain r where r: "number_value h = Fin r" "0 \<le> r" "r \<le> r'"
    using h(1,2) r'(1) by (rule number_value_below)
  have "in_range (2 powi (9 + 30)) (js_mul (Fin k) (Fin r'))"
    using k r' by (intro js_mul_in_range) simp_all
  then obtain m' where m': "js_mul (Fin k) (Fin r') = Fin m'" "0 \<le> m'" "m' \<le> 2 powi 39"
    by (auto elim: in_rangeE)
  obtain m where m: "js_mul (Fin k) (Fin r) = Fin m" "0 \<le> m" "m \<le> m'"
    using k(1) r(2,3) m'(1) by (rule js_mul_below)
  have "in_range (2 powi (39 + 0)) (js_mul (Fin m') (Fin g))"
    using m' g by (intro js_mul_in_range) simp_all
  then obtain b where b: "js_mul (Fin m') (Fin g) = Fin b" "0 \<le> b" "b \<le> 2 powi 39"
    by (auto elim: in_rangeE)
  obtain a where a: "js_mul (Fin m) (Fin g) = Fin a" "0 \<le> a" "a \<le> b"
    using g(1) m(2,3) b(1) by (rule js_mul_below_left)
  have "js_mul (js_mul (Fin k) (number_value h)) (Fin g) = Fin a"
    by (simp only: r(1) m(1) a(1))
  moreover have "js_mul (js_mul (Fin k) (number_value h')) (Fin g) = Fin b"
    by (simp only: r'(1) m'(1) b(1))
  ultimately show ?thesis using a(2,3) b(3) by (rule that)
qed

lemma costPerEvent_below:
  assumes level: "experienceLevel c \<in> {''junior'', ''mixed'', ''senior''}"
    and h: "0 \<le> hourlyRate c" "hourlyRate c \<le> h'" "h' \<le> 2 powi 30"
  obtains x y where "costPerEvent_ieee c = Fin x"
    and "costPerEvent_ieee (c\<lparr>hourlyRate := h'\<rparr>) = Fin y" and "0 \<le> x" and "x \<le> y"
proof -
  let ?c' = "c\<lparr>hourlyRate := h'\<rparr>"
  obtain i i' where i: "js_mul (js_mul (Fin 80) (number_value (hourlyRate c))) (Fin 1) = Fin i"
    "js_mul (js_mul (Fin 80) (number_value h')) (Fin 1) = Fin i'" "0 \<le> i" "i \<le> i'"
    "i' \<le> 2 powi 39"
    using h by (rule component_below [of 80 1, rotated 4]) simp_all
  obtain n n' where n: "js_mul (js_mul (Fin 40) (number_value (hourlyRate c))) (Fin 1) = Fin n"
    "js_mul (js_mul (Fin 40) (number_value h')) (Fin 1) = Fin n'" "0 \<le> n" "n \<le> n'"
    "n' \<le> 2 powi 39"
    using h by (rule component_below [of 40 1, rotated 4]) simp_all
  obtain k :: int where k:
    "js_mul (js_div (ToNumber (rampUpDays c)) (number_value 5)) hoursPerWeek = Fin (of_int k)"
    "k \<in> {480, 360, 240}"
    using level by (rule rampUpWeeks_ieee)
  have kb: "(0::rat) \<le> of_int k" "(of_int k :: rat) \<le> 2 powi 9" using k(2) by auto
  obtain u u' where u:
    "js_mul (js_mul (Fin (of_int k)) (number_value (hourlyRate c))) (Fin (1 / 2)) = Fin u"
    "js_mul (js_mul (Fin (of_int k)) (number_value h')) (Fin (1 / 2)) = Fin u'"
    "0 \<le> u" "u \<le> u'" "u' \<le> 2 powi 39"
    using kb _ _ h by (rule component_below [of "of_int k" "1 / 2"]) simp_all
  have idle: "idleTimeCost_ieee c = Fin i" "idleTimeCost_ieee ?c' = Fin i'"
    using i(1,2) by (simp_all add: idleTimeCost_ieee_def constant_defs js_mul_def [of "Fin 2"])
  have onb: "onboardingCost_ieee c = Fin n" "onboardingCost_ieee ?c' = Fin n'"
    using n(1,2) by (simp_all add: onboardingCost_ieee_def constant_defs js_div_def [of "Fin 5"]
        js_mul_def [of "Fin 1" "Fin 40"])
  have same: "rampUpDays ?c' = rampUpDays c" by (simp add: rampUpDays_def)
  have ramp: "rampUpCost_ieee c = Fin u" "rampUpCost_ieee ?c' = Fin u'"
    using u(1,2)
    by (simp_all add: rampUpCost_ieee_def Let_def same k(1) [simplified]
        productivityGap_ieee [simplified])
  have "in_range (2 powi (39 + 1)) (js_add (Fin i') (Fin n'))"
    using i n by (intro js_add_in_range) simp_all
  then obtain s' where s': "js_add (Fin i') (Fin n') = Fin s'" "0 \<le> s'" "s' \<le> 2 powi 40"
    by (auto elim: in_rangeE)
  obtain s where s: "js_add (Fin i) (Fin n) = Fin s" "0 \<le> s" "s \<le> s'"
    using i(3,4) n(3,4) s'(1) by (rule js_add_below)
  have "u' \<le> 2 powi 40" using u(5) pow2_mono [of 39 40] by simp
  then have "in_range (2 powi (40 + 1)) (js_add (Fin s') (Fin u'))"
    using s' u by (intro js_add_in_range) simp_all
  then obtain y where y: "js_add (Fin s') (Fin u') = Fin y" by (auto elim: in_rangeE)
  obtain x where x: "js_add (Fin s) (Fin u) = Fin x" "0 \<le> x" "x \<le> y"
    using s(2,3) u(3,4) y by (rule js_add_below)
  have "costPerEvent_ieee c = Fin x"
    by (simp only: costPerEvent_ieee_def idle onb ramp s(1) x(1))
  moreover have "costPerEvent_ieee ?c' = Fin y"
    by (simp only: costPerEvent_ieee_def idle onb ramp s'(1) y)
  ultimately show ?thesis using x(2,3) by (rule that)
qed

lemma totals_below:
  assumes level: "experienceLevel c \<in> {''junior'', ''mixed'', ''senior''}"
    and h: "0 \<le> hourlyRate c" "hourlyRate c \<le> h'" "h' \<le> 10 ^ 9"
    and t: "0 \<le> teamSize c" "teamSize c \<le> 10 ^ 9"
    and d: "0 \<le> projectDuration c" "projectDuration c \<le> 10 ^ 9"
  shows "competitorTotal_ieee c \<le> competitorTotal_ieee (c\<lparr>hourlyRate := h'\<rparr>)"
    and "inforceTotal_ieee c \<le> inforceTotal_ieee (c\<lparr>hourlyRate := h'\<rparr>)"
proof -
  let ?c' = "c\<lparr>hourlyRate := h'\<rparr>"
  have h30: "h' \<le> 2 powi 30" using h(3) by simp
  obtain x y where cost: "costPerEvent_ieee c = Fin x" "costPerEvent_ieee ?c' = Fin y"
    "0 \<le> x" "x \<le> y"
    using level h(1,2) h30 by (rule costPerEvent_below)
  have level': "experienceLevel ?c' \<in> {''junior'', ''mixed'', ''senior''}"
    and h': "0 \<le> hourlyRate ?c'" "hourlyRate ?c' \<le> 10 ^ 9"
    and t': "0 \<le> teamSize ?c'" "teamSize ?c' \<le> 10 ^ 9"
    and d': "0 \<le> projectDuration ?c'" "projectDuration ?c' \<le> 10 ^ 9"
    using level h t d by simp_all
  obtain ie ce ct it :: rat where ev: "inforceTurnoverEvents_ieee ?c' = Fin ie"
    "competitorTurnoverEvents_ieee ?c' = Fin ce" "0 \<le> ie" "ie \<le> ce"
    and tot: "competitorTotal_ieee ?c' = Fin ct" "inforceTotal_ieee ?c' = Fin it"
    using level' h' t' d' by (rule bounded_totals)
  have same: "competitorTurnoverEvents_ieee c = competitorTurnoverEvents_ieee ?c'"
    "inforceTurnoverEvents_ieee c = inforceTurnoverEvents_ieee ?c'"
    by (simp_all add: competitorTurnoverEvents_ieee_def inforceTurnoverEvents_ieee_def)
  have ce0: "0 \<le> ce" using ev(3,4) by simp
  have "js_mul (Fin ce) (Fin y) = Fin ct"
    using tot(1) by (simp only: competitorTotal_ieee_def ev cost)
  with ce0 cost(3,4) obtain a where "js_mul (Fin ce) (Fin x) = Fin a" "a \<le> ct"
    by (rule js_mul_below)
  then show "competitorTotal_ieee c \<le> competitorTotal_ieee ?c'"
    by (simp only: competitorTotal_ieee_def same ev cost tot [unfolded competitorTotal_ieee_def ev cost]
        less_eq_jsnum.simps)
  have "js_mul (Fin ie) (Fin y) = Fin it"
    using tot(2) by (simp only: inforceTotal_ieee_def ev cost)
  with ev(3) cost(3,4) obtain a where "js_mul (Fin ie) (Fin x) = Fin a" "a \<le> it"
    by (rule js_mul_below)
  then show "inforceTotal_ieee c \<le> inforceTotal_ieee ?c'"
    by (simp only: inforceTotal_ieee_def same ev cost tot [unfolded inforceTotal_ieee_def ev cost]
        less_eq_jsnum.simps)
qed

lemma hourlyRate_strict:
  assumes level: "experienceLevel c \<in> {''junior'', ''mixed'', ''senior''}"
    and rate: "hourlyRate c = of_int a" "0 \<le> a" "a < b" "b \<le> 1000000"
  shows "costPerEvent_ieee c < costPerEvent_ieee (c\<lparr>hourlyRate := of_int b\<rparr>)
    \<and> (Fin 1 \<le> competitorTurnoverEvents_ieee c
         \<and> competitorTurnoverEvents_ieee c \<le> Fin 1000000 \<longrightarrow>
          competitorTotal_ieee c < competitorTotal_ieee (c\<lparr>hourlyRate := of_int b\<rparr>))
    \<and> (Fin 1 \<le> inforceTurnoverEvents_ieee c
         \<and> inforceTurnoverEvents_ieee c \<le> Fin 1000000 \<longrightarrow>
          inforceTotal_ieee c < inforceTotal_ieee (c\<lparr>hourlyRate := of_int b\<rparr>))"
proof -
  let ?c' = "c\<lparr>hourlyRate := of_int b\<rparr>"
  define k :: int where "k = (if experienceLevel c = ''junior'' then 360
      else if experienceLevel c = ''mixed'' then 300 else 240)"
  have k: "0 < k" "k \<le> 360" by (simp_all add: k_def)
  have cost: "costPerEvent_ieee c = Fin (of_int (k * a))"
    using level rate(1,2) rate(3,4) unfolding k_def by (intro costPerEvent_whole) simp_all
  have cost': "costPerEvent_ieee ?c' = Fin (of_int (k * b))"
    using costPerEvent_whole [of ?c' b] level rate by (simp add: k_def)
  have lt: "k * a < k * b" using k(1) rate(3) by simp
  have first: "costPerEvent_ieee c < costPerEvent_ieee ?c'"
    using lt by (simp only: cost cost' less_jsnum.simps of_int_less_iff)
  have total: "js_mul (Fin x) (costPerEvent_ieee c) < js_mul (Fin x) (costPerEvent_ieee ?c')"
    if ev: "Math_round v = Fin x" and x: "1 \<le> x" "x \<le> 1000000" for v x
  proof -
    obtain m :: int where m: "x = of_int m" using ev by (rule events_whole)
    have m1: "1 \<le> m" "m \<le> 1000000" using x by (simp_all add: m)
    have "k * b \<le> 360 * 1000000" using k rate by (intro mult_mono) simp_all
    then have "m * (k * b) \<le> 1000000 * (360 * 1000000)"
      using m1 k rate by (intro mult_mono) simp_all
    moreover have "0 \<le> m * (k * a)" "m * (k * a) < m * (k * b)" using m1 k rate lt by simp_all
    ultimately have "\<bar>m * (k * a)\<bar> < 2 ^ 53" "\<bar>m * (k * b)\<bar> < 2 ^ 53"
      and "m * (k * a) < m * (k * b)" by simp_all
    then show ?thesis
      by (simp only: cost cost' m js_mul_int less_jsnum.simps of_int_less_iff)
  qed
  have second: "competitorTotal_ieee c < competitorTotal_ieee ?c'"
    if lo: "Fin 1 \<le> competitorTurnoverEvents_ieee c"
      and hi: "competitorTurnoverEvents_ieee c \<le> Fin 1000000"
  proof -
    obtain x where x: "competitorTurnoverEvents_ieee c = Fin x" "1 \<le> x" "x \<le> 1000000"
      using lo hi by (rule between_Fin)
    have same: "competitorTurnoverEvents_ieee ?c' = competitorTurnoverEvents_ieee c"
      by (simp add: competitorTurnoverEvents_ieee_def)
    show ?thesis
      using total [of _ x] x
      by (simp add: competitorTotal_ieee_def same) (simp add: competitorTurnoverEvents_ieee_def)
  qed
  have third: "inforceTotal_ieee c < inforceTotal_ieee ?c'"
    if lo: "Fin 1 \<le> inforceTurnoverEvents_ieee c"
      and hi: "inforceTurnoverEvents_ieee c \<le> Fin 1000000"
  proof -
    obtain x where x: "inforceTurnoverEvents_ieee c = Fin x" "1 \<le> x" "x \<le> 1000000"
      using lo hi by (rule between_Fin)
    have same: "inforceTurnoverEvents_ieee ?c' = inforceTurnoverEvents_ieee c"
      by (simp add: inforceTurnoverEvents_ieee_def)
    show ?thesis
      using total [of _ x] x
      by (simp add: inforceTotal_ieee_def same) (simp add: inforceTurnoverEvents_ieee_def)
  qed
  from first second third show ?thesis by blast
qed

section \<open>Claims\<close>

text \<open>
  The claims on the default scenario, on the productivity curve and on the cost
  components are stated over the exact reading of the arithmetic, the others over
  binary64 numbers. In the default scenario the two readings agree
  (\<open>default_events_ieee\<close>, \<open>default_totals_ieee\<close>).
\<close>

text \<open>
  C1. For the input \<open>hourlyRate = 200\<close>, \<open>teamSize = 12\<close>, \<open>projectDuration = 18\<close>,
  \<open>experienceLevel = mixed\<close> the calculator yields 5 competitor turnover events and 1
  InForce turnover event, a cost of 60,000 per event, a competitor total of 300,000, an
  InForce total of 60,000, savings of 240,000 and a savings percentage of 80.
\<close>

theorem default_scenario:
  "competitorTurnoverEvents calculator = Fin 5
   \<and> inforceTurnoverEvents calculator = Fin 1
   \<and> costPerEvent calculator = Fin 60000
   \<and> competitorTotal calculator = Fin 300000
   \<and> inforceTotal calculator = Fin 60000
   \<and> savings calculator = Fin 240000
   \<and> savingsPercentage calculator = Fin 80
   \<and> calculator = \<lparr>hourlyRate = 200, teamSize = 12, projectDuration = 18,
                      experienceLevel = ''mixed''\<rparr>"
  by (simp add: savingsPercentage_def savings_def competitorTotal_def inforceTotal_def
      default_events default_costPerEvent strict_eq_def minus_jsnum_def)
     (simp add: calculator_def)

text \<open>
  C1, as the README's example calculation words it, has totals of about 332,000 and
  66,400 and savings of about 265,600. The getters return 300,000, 60,000 and 240,000:
  the documented figures are 32,000, 6,400 and 25,600 higher, which no rounding to whole
  dollars accounts for.
\<close>

theorem default_scenario_counterexample:
  "competitorTotal \<lparr>hourlyRate = 200, teamSize = 12, projectDuration = 18,
                     experienceLevel = ''mixed''\<rparr> = Fin 300000
   \<and> Fin 332000 - competitorTotal \<lparr>hourlyRate = 200, teamSize = 12, projectDuration = 18,
                     experienceLevel = ''mixed''\<rparr> = Fin 32000
   \<and> inforceTotal \<lparr>hourlyRate = 200, teamSize = 12, projectDuration = 18,
                     experienceLevel = ''mixed''\<rparr> = Fin 60000
   \<and> Fin 66400 - inforceTotal \<lparr>hourlyRate = 200, teamSize = 12, projectDuration = 18,
                     experienceLevel = ''mixed''\<rparr> = Fin 6400
   \<and> savings \<lparr>hourlyRate = 200, teamSize = 12, projectDuration = 18,
                 experienceLevel = ''mixed''\<rparr> = Fin 240000
   \<and> Fin 265600 - savings \<lparr>hourlyRate = 200, teamSize = 12, projectDuration = 18,
                 experienceLevel = ''mixed''\<rparr> = Fin 25600"
  unfolding calculator_def [symmetric]
  by (simp add: savings_def competitorTotal_def inforceTotal_def default_events
      default_costPerEvent minus_jsnum_def)

text \<open>
  C2. No experience level makes the calculator fail. Reading a getter always returns; no
  \<open>InvalidExperienceLevel\<close> is raised. For an experience level that is none of the keys
  \<open>junior\<close>, \<open>mixed\<close>, \<open>senior\<close>, \<open>rampUpDays\<close> is not a number (no default level
  stands in for it), and \<open>rampUpCost\<close> and \<open>costPerEvent\<close> are NaN. For a valid key
  \<open>rampUpDays\<close> is 60, 45 or 30.
\<close>

theorem getters_never_fail:
  "read_getter getter c = Inr (getter c)
   \<and> read_getter getter c \<noteq> Inl InvalidExperienceLevel
   \<and> (experienceLevel c \<notin> {''junior'', ''mixed'', ''senior''} \<longrightarrow>
         (\<forall>n. read_getter rampUpDays c \<noteq> Inr (Number n))
         \<and> read_getter rampUpCost_ieee c = Inr NaN
         \<and> read_getter costPerEvent_ieee c = Inr NaN)
   \<and> (experienceLevel c \<in> {''junior'', ''mixed'', ''senior''} \<longrightarrow>
         read_getter rampUpDays c =
           Inr (Number (Fin (if experienceLevel c = ''junior'' then 60
                             else if experienceLevel c = ''mixed'' then 45 else 30))))"
proof -
  have invalid: "experienceLevel c \<notin> {''junior'', ''mixed'', ''senior''} \<longrightarrow>
         (\<forall>n. read_getter rampUpDays c \<noteq> Inr (Number n))
         \<and> read_getter rampUpCost_ieee c = Inr NaN
         \<and> read_getter costPerEvent_ieee c = Inr NaN"
    using invalid_level_ieee(1,2) [of c] by (simp add: read_getter_def rampUpDays_own)
  have valid: "experienceLevel c \<in> {''junior'', ''mixed'', ''senior''} \<longrightarrow>
         read_getter rampUpDays c =
           Inr (Number (Fin (if experienceLevel c = ''junior'' then 60
                             else if experienceLevel c = ''mixed'' then 45 else 30)))"
    by (auto simp add: read_getter_def rampUpDays_own)
  show ?thesis
    using invalid valid by (simp add: read_getter_def)
qed

theorem getters_never_fail_witness:
  "read_getter savingsPercentage_ieee (calculator\<lparr>experienceLevel := ''expert''\<rparr>)
      \<noteq> Inl InvalidExperienceLevel
   \<and> read_getter costPerEvent_ieee (calculator\<lparr>experienceLevel := ''expert''\<rparr>) = Inr NaN
   \<and> read_getter rampUpDays calculator = Inr (Number (Fin 45))"
proof -
  have bad: "experienceLevel (calculator\<lparr>experienceLevel := ''expert''\<rparr>)
      \<notin> {''junior'', ''mixed'', ''senior''}"
    by simp
  have good: "experienceLevel calculator \<in> {''junior'', ''mixed'', ''senior''}"
    "experienceLevel calculator = ''mixed''"
    by (simp_all add: default_level)
  show ?thesis
    using getters_never_fail [of savingsPercentage_ieee
        "calculator\<lparr>experienceLevel := ''expert''\<rparr>"]
      getters_never_fail [of savingsPercentage_ieee calculator] bad good
    by simp
qed

text \<open>
  C2, as the specification words it, has the calculator fail with
  \<open>InvalidExperienceLevel\<close> for an unknown key. For the key \<open>expert\<close> reading
  \<open>rampUpDays\<close> returns \<open>undefined\<close> and reading \<open>rampUpCost\<close> returns NaN.
\<close>

theorem no_InvalidExperienceLevel_counterexample:
  "read_getter rampUpDays (calculator\<lparr>experienceLevel := ''expert''\<rparr>) = Inr Undefined
   \<and> read_getter rampUpCost_ieee (calculator\<lparr>experienceLevel := ''expert''\<rparr>) = Inr NaN
   \<and> read_getter rampUpCost_ieee (calculator\<lparr>experienceLevel := ''expert''\<rparr>)
        \<noteq> Inl InvalidExperienceLevel"
  by (simp add: read_getter_def rampUpDays_own invalid_level_ieee Object_prototype_def)

text \<open>
  C3. For a positive \<open>rampUpWeeks\<close>, \<open>generateProductivityCurve\<close> returns exactly 13
  points, for the weeks 0 to 12; the points of weeks 0, 1 and 2 are 0; the point of each
  week \<open>w \<ge> 3\<close> is \<open>min 100 ((w - 3) / rampUpWeeks * 100)\<close>; the last point is 100
  when \<open>rampUpWeeks \<le> 9\<close>. Of the three configured curves, the senior one (6 weeks)
  is at 100 from week 9 and the mixed one (9 weeks) reaches 100 at week 12; the junior
  one (12 weeks) ends at 75 and has no point equal to 100.
\<close>

theorem productivity_curve_points:
  assumes "0 < rampUpWeeks"
  shows "length (generateProductivityCurve rampUpWeeks) = 13
    \<and> (\<forall>w < 3. generateProductivityCurve rampUpWeeks ! w = Fin 0)
    \<and> (\<forall>w. 3 \<le> w \<and> w \<le> 12 \<longrightarrow>
          generateProductivityCurve rampUpWeeks ! w
            = Fin (min 100 ((of_nat w - 3) / rampUpWeeks * 100)))
    \<and> (rampUpWeeks \<le> 9 \<longrightarrow> generateProductivityCurve rampUpWeeks ! 12 = Fin 100)
    \<and> seniorCurve ! 9 = Fin 100 \<and> mixedCurve ! 12 = Fin 100
    \<and> juniorCurve ! 12 = Fin 75 \<and> Fin 100 \<notin> set juniorCurve"
proof -
  note eq = generateProductivityCurve_points [OF assms]
  have nth: "generateProductivityCurve rampUpWeeks ! w = curve_point rampUpWeeks w"
    if "w < 13" for w
    using that by (simp add: eq)
  have "length (generateProductivityCurve rampUpWeeks) = 13"
    by (simp add: eq)
  moreover have "\<forall>w < 3. generateProductivityCurve rampUpWeeks ! w = Fin 0"
    by (simp add: nth curve_point_def)
  moreover have "\<forall>w. 3 \<le> w \<and> w \<le> 12 \<longrightarrow>
          generateProductivityCurve rampUpWeeks ! w
            = Fin (min 100 ((of_nat w - 3) / rampUpWeeks * 100))"
    by (simp add: nth curve_point_def)
  moreover have "rampUpWeeks \<le> 9 \<longrightarrow> generateProductivityCurve rampUpWeeks ! 12 = Fin 100"
    using assms by (simp add: nth curve_point_def min_def pos_le_divide_eq)
  moreover have "seniorCurve ! 9 = Fin 100"
    by (simp add: seniorCurve_def generateProductivityCurve_points curve_point_def)
  moreover have "mixedCurve ! 12 = Fin 100"
    by (simp add: mixedCurve_def generateProductivityCurve_points curve_point_def)
  moreover have "juniorCurve ! 12 = Fin 75"
    by (simp add: juniorCurve_def generateProductivityCurve_points curve_point_def)
  moreover have "Fin 100 \<notin> set juniorCurve"
    by (simp add: juniorCurve_def generateProductivityCurve_points curve_point_def upt_rec)
  ultimately show ?thesis by blast
qed

theorem productivity_curve_points_witness:
  "0 < (6::rat) \<and> length (generateProductivityCurve 6) = 13
   \<and> generateProductivityCurve 6 ! 2 = Fin 0
   \<and> generateProductivityCurve 6 ! 5 = Fin (100 / 3)
   \<and> (6::rat) \<le> 9 \<and> generateProductivityCurve 6 ! 12 = Fin 100"
  using productivity_curve_points [of 6] by simp

text \<open>
  C3, as the specification words it, has the curve reach 100 by week 12 for all three
  configured durations. For 12 weeks the last point is 75 and no point is 100.
\<close>

theorem junior_curve_counterexample:
  "generateProductivityCurve 12 ! 12 = Fin 75
   \<and> Fin 100 \<notin> set (generateProductivityCurve 12)"
  by (simp add: generateProductivityCurve_points curve_point_def upt_rec)




text \<open>
  C6. For every input, \<open>competitorTotal\<close> is the product
  \<open>competitorTurnoverEvents * costPerEvent\<close> and \<open>inforceTotal\<close> the product
  \<open>inforceTurnoverEvents * costPerEvent\<close>, with one \<open>costPerEvent\<close> for both parties,
  and \<open>savings\<close> is the difference \<open>competitorTotal - inforceTotal\<close>. The comparison of
  \<open>savings\<close> with \<open>competitorTotal - inforceTotal\<close> is true exactly when \<open>savings\<close> is
  not NaN: it is false for an experience level that is none of the keys, and true for a
  valid level and inputs between 0 and \<open>10 ^ 9\<close>.
\<close>

theorem totals_and_savings:
  "competitorTotal_ieee c = js_mul (competitorTurnoverEvents_ieee c) (costPerEvent_ieee c)
   \<and> inforceTotal_ieee c = js_mul (inforceTurnoverEvents_ieee c) (costPerEvent_ieee c)
   \<and> savings_ieee c = js_sub (competitorTotal_ieee c) (inforceTotal_ieee c)
   \<and> strict_eq (savings_ieee c) (js_sub (competitorTotal_ieee c) (inforceTotal_ieee c))
       = (savings_ieee c \<noteq> NaN)
   \<and> (experienceLevel c \<notin> {''junior'', ''mixed'', ''senior''} \<longrightarrow>
        \<not> strict_eq (savings_ieee c) (js_sub (competitorTotal_ieee c) (inforceTotal_ieee c)))
   \<and> (experienceLevel c \<in> {''junior'', ''mixed'', ''senior''}
        \<and> 0 \<le> hourlyRate c \<and> hourlyRate c \<le> 10 ^ 9
        \<and> 0 \<le> teamSize c \<and> teamSize c \<le> 10 ^ 9
        \<and> 0 \<le> projectDuration c \<and> projectDuration c \<le> 10 ^ 9 \<longrightarrow>
        strict_eq (savings_ieee c) (js_sub (competitorTotal_ieee c) (inforceTotal_ieee c)))"
proof -
  have same: "strict_eq (savings_ieee c) (js_sub (competitorTotal_ieee c) (inforceTotal_ieee c))
       = (savings_ieee c \<noteq> NaN)"
    by (simp add: savings_ieee_def strict_eq_def)
  have bad: "experienceLevel c \<notin> {''junior'', ''mixed'', ''senior''} \<longrightarrow>
        \<not> strict_eq (savings_ieee c) (js_sub (competitorTotal_ieee c) (inforceTotal_ieee c))"
    using invalid_level_ieee(5) [of c] unfolding same by blast
  have good: "experienceLevel c \<in> {''junior'', ''mixed'', ''senior''}
        \<and> 0 \<le> hourlyRate c \<and> hourlyRate c \<le> 10 ^ 9
        \<and> 0 \<le> teamSize c \<and> teamSize c \<le> 10 ^ 9
        \<and> 0 \<le> projectDuration c \<and> projectDuration c \<le> 10 ^ 9 \<longrightarrow>
        strict_eq (savings_ieee c) (js_sub (competitorTotal_ieee c) (inforceTotal_ieee c))"
  proof
    assume "experienceLevel c \<in> {''junior'', ''mixed'', ''senior''}
        \<and> 0 \<le> hourlyRate c \<and> hourlyRate c \<le> 10 ^ 9
        \<and> 0 \<le> teamSize c \<and> teamSize c \<le> 10 ^ 9
        \<and> 0 \<le> projectDuration c \<and> projectDuration c \<le> 10 ^ 9"
    then have bounds: "experienceLevel c \<in> {''junior'', ''mixed'', ''senior''}"
      "0 \<le> hourlyRate c" "hourlyRate c \<le> 10 ^ 9"
      "0 \<le> teamSize c" "teamSize c \<le> 10 ^ 9"
      "0 \<le> projectDuration c" "projectDuration c \<le> 10 ^ 9"
      by blast+
    obtain s :: rat where "savings_ieee c = Fin s"
      using bounds by (rule bounded_totals)
    then show "strict_eq (savings_ieee c) (js_sub (competitorTotal_ieee c) (inforceTotal_ieee c))"
      unfolding same by simp
  qed
  have defs: "competitorTotal_ieee c = js_mul (competitorTurnoverEvents_ieee c) (costPerEvent_ieee c)"
    "inforceTotal_ieee c = js_mul (inforceTurnoverEvents_ieee c) (costPerEvent_ieee c)"
    "savings_ieee c = js_sub (competitorTotal_ieee c) (inforceTotal_ieee c)"
    by (simp_all add: competitorTotal_ieee_def inforceTotal_ieee_def savings_ieee_def)
  from defs same bad good show ?thesis by blast
qed

theorem totals_and_savings_witness:
  "strict_eq (savings_ieee calculator)
     (js_sub (competitorTotal_ieee calculator) (inforceTotal_ieee calculator))
   \<and> savings_ieee calculator = Fin 240000
   \<and> \<not> strict_eq (savings_ieee (calculator\<lparr>experienceLevel := ''expert''\<rparr>))
       (js_sub (competitorTotal_ieee (calculator\<lparr>experienceLevel := ''expert''\<rparr>))
               (inforceTotal_ieee (calculator\<lparr>experienceLevel := ''expert''\<rparr>)))"
proof -
  have good: "experienceLevel calculator \<in> {''junior'', ''mixed'', ''senior''}"
    "0 \<le> hourlyRate calculator" "hourlyRate calculator \<le> 10 ^ 9"
    "0 \<le> teamSize calculator" "teamSize calculator \<le> 10 ^ 9"
    "0 \<le> projectDuration calculator" "projectDuration calculator \<le> 10 ^ 9"
    by (simp_all add: calculator_def)
  have bad: "experienceLevel (calculator\<lparr>experienceLevel := ''expert''\<rparr>)
      \<notin> {''junior'', ''mixed'', ''senior''}"
    by simp
  have "strict_eq (savings_ieee calculator)
     (js_sub (competitorTotal_ieee calculator) (inforceTotal_ieee calculator))"
    using totals_and_savings [of calculator] good by blast
  moreover have "\<not> strict_eq (savings_ieee (calculator\<lparr>experienceLevel := ''expert''\<rparr>))
       (js_sub (competitorTotal_ieee (calculator\<lparr>experienceLevel := ''expert''\<rparr>))
               (inforceTotal_ieee (calculator\<lparr>experienceLevel := ''expert''\<rparr>)))"
    using totals_and_savings [of "calculator\<lparr>experienceLevel := ''expert''\<rparr>"] bad by blast
  ultimately show ?thesis using default_totals_ieee(4) by blast
qed

text \<open>
  C6, as the specification words it, has \<open>savings\<close> equal to
  \<open>competitorTotal - inforceTotal\<close> for all inputs. For the level \<open>expert\<close> both sides
  are NaN; for an hourly rate of \<open>10 ^ 308\<close> both totals are infinite and both sides
  are NaN again. NaN is equal to nothing, and the comparison is false.
\<close>

theorem savings_comparison_counterexample:
  "savings_ieee (calculator\<lparr>experienceLevel := ''expert''\<rparr>) = NaN
   \<and> js_sub (competitorTotal_ieee (calculator\<lparr>experienceLevel := ''expert''\<rparr>))
        (inforceTotal_ieee (calculator\<lparr>experienceLevel := ''expert''\<rparr>)) = NaN
   \<and> \<not> strict_eq (savings_ieee (calculator\<lparr>experienceLevel := ''expert''\<rparr>))
       (js_sub (competitorTotal_ieee (calculator\<lparr>experienceLevel := ''expert''\<rparr>))
               (inforceTotal_ieee (calculator\<lparr>experienceLevel := ''expert''\<rparr>)))
   \<and> \<not> strict_eq (savings_ieee (calculator\<lparr>hourlyRate := 10 ^ 308\<rparr>))
       (js_sub (competitorTotal_ieee (calculator\<lparr>hourlyRate := 10 ^ 308\<rparr>))
               (inforceTotal_ieee (calculator\<lparr>hourlyRate := 10 ^ 308\<rparr>)))"
proof -
  have "experienceLevel (calculator\<lparr>experienceLevel := ''expert''\<rparr>)
      \<notin> {''junior'', ''mixed'', ''senior''}"
    by simp
  then have "savings_ieee (calculator\<lparr>experienceLevel := ''expert''\<rparr>) = NaN"
    by (rule invalid_level_ieee)
  moreover have "savings_ieee (calculator\<lparr>hourlyRate := 10 ^ 308\<rparr>) = NaN"
    by (simp add: ieee_eval nv_facts)
  ultimately show ?thesis
    by (simp add: strict_eq_def flip: savings_ieee_def)
qed

text \<open>
  C7. For every input with \<open>competitorTotal\<close> equal to 0, \<open>savingsPercentage\<close> is 0 (so
  neither NaN nor an infinity); otherwise it is \<open>savings / competitorTotal * 100\<close>.
  \<open>competitorTotal\<close> is 0 when the competitor event count is 0 and \<open>costPerEvent\<close> is
  finite, and the count is 0 when \<open>teamSize\<close> is 0 and \<open>projectDuration\<close> is at most
  \<open>10 ^ 9\<close> in absolute value.
\<close>

theorem savingsPercentage_guard:
  "(competitorTotal_ieee c = Fin 0 \<longrightarrow> savingsPercentage_ieee c = Fin 0)
   \<and> (competitorTotal_ieee c \<noteq> Fin 0 \<longrightarrow>
         savingsPercentage_ieee c =
           js_mul (js_div (savings_ieee c) (competitorTotal_ieee c)) (number_value 100))
   \<and> (competitorTurnoverEvents_ieee c = Fin 0 \<and> costPerEvent_ieee c = Fin p \<longrightarrow>
         competitorTotal_ieee c = Fin 0 \<and> savingsPercentage_ieee c = Fin 0)
   \<and> (teamSize c = 0 \<and> \<bar>projectDuration c\<bar> \<le> 10 ^ 9 \<longrightarrow>
         competitorTurnoverEvents_ieee c = Fin 0)"
proof -
  have guard: "competitorTotal_ieee c = Fin 0 \<longrightarrow> savingsPercentage_ieee c = Fin 0"
    by (simp add: savingsPercentage_ieee_def strict_eq_zero)
  have other: "competitorTotal_ieee c \<noteq> Fin 0 \<longrightarrow>
         savingsPercentage_ieee c =
           js_mul (js_div (savings_ieee c) (competitorTotal_ieee c)) (number_value 100)"
    by (simp add: savingsPercentage_ieee_def strict_eq_zero)
  have events: "competitorTurnoverEvents_ieee c = Fin 0 \<and> costPerEvent_ieee c = Fin p \<longrightarrow>
         competitorTotal_ieee c = Fin 0"
    by (simp add: competitorTotal_ieee_def js_mul_def)
  have team: "teamSize c = 0 \<and> \<bar>projectDuration c\<bar> \<le> 10 ^ 9 \<longrightarrow>
         competitorTurnoverEvents_ieee c = Fin 0"
    using zero_team_events(1) [of c] by blast
  from guard other events team show ?thesis by blast
qed

theorem savingsPercentage_guard_witness:
  "teamSize (calculator\<lparr>teamSize := 0\<rparr>) = 0
   \<and> competitorTurnoverEvents_ieee (calculator\<lparr>teamSize := 0\<rparr>) = Fin 0
   \<and> costPerEvent_ieee (calculator\<lparr>teamSize := 0\<rparr>) = Fin 60000
   \<and> competitorTotal_ieee (calculator\<lparr>teamSize := 0\<rparr>) = Fin 0
   \<and> savingsPercentage_ieee (calculator\<lparr>teamSize := 0\<rparr>) = Fin 0
   \<and> competitorTotal_ieee calculator \<noteq> Fin 0
   \<and> savingsPercentage_ieee calculator =
        js_mul (js_div (savings_ieee calculator) (competitorTotal_ieee calculator))
          (number_value 100)"
proof -
  have zero: "teamSize (calculator\<lparr>teamSize := 0\<rparr>) = 0"
    "\<bar>projectDuration (calculator\<lparr>teamSize := 0\<rparr>)\<bar> \<le> 10 ^ 9"
    by (simp_all add: calculator_def)
  have cost: "costPerEvent_ieee (calculator\<lparr>teamSize := 0\<rparr>) = Fin 60000"
    by (simp add: ieee_eval nv_facts)
  have some: "competitorTotal_ieee calculator \<noteq> Fin 0"
    by (simp add: default_totals_ieee)
  show ?thesis
    using savingsPercentage_guard [of "calculator\<lparr>teamSize := 0\<rparr>" 60000]
      savingsPercentage_guard [of calculator 0] zero cost some
    by blast
qed

text \<open>
  C7, as the specification words it, has \<open>teamSize = 0\<close> as a case of \<open>competitorTotal\<close>
  being 0. With \<open>teamSize = 0\<close> and the level \<open>expert\<close>, \<open>competitorTotal\<close> is
  \<open>0 * NaN\<close>, and with \<open>teamSize = 0\<close> and an hourly rate of \<open>10 ^ 308\<close> it is
  \<open>0 * Infinity\<close>: NaN both times, and \<open>savingsPercentage\<close> is NaN.
\<close>

theorem zero_team_counterexample:
  "teamSize (calculator\<lparr>teamSize := 0, experienceLevel := ''expert''\<rparr>) = 0
   \<and> competitorTotal_ieee (calculator\<lparr>teamSize := 0, experienceLevel := ''expert''\<rparr>) = NaN
   \<and> savingsPercentage_ieee (calculator\<lparr>teamSize := 0, experienceLevel := ''expert''\<rparr>) = NaN
   \<and> competitorTurnoverEvents_ieee (calculator\<lparr>teamSize := 0, hourlyRate := 10 ^ 308\<rparr>) = Fin 0
   \<and> costPerEvent_ieee (calculator\<lparr>teamSize := 0, hourlyRate := 10 ^ 308\<rparr>) = PInf
   \<and> competitorTotal_ieee (calculator\<lparr>teamSize := 0, hourlyRate := 10 ^ 308\<rparr>) = NaN
   \<and> savingsPercentage_ieee (calculator\<lparr>teamSize := 0, hourlyRate := 10 ^ 308\<rparr>) = NaN"
proof -
  have "experienceLevel (calculator\<lparr>teamSize := 0, experienceLevel := ''expert''\<rparr>)
      \<notin> {''junior'', ''mixed'', ''senior''}"
    by simp
  then have expert:
    "competitorTotal_ieee (calculator\<lparr>teamSize := 0, experienceLevel := ''expert''\<rparr>) = NaN"
    "savingsPercentage_ieee (calculator\<lparr>teamSize := 0, experienceLevel := ''expert''\<rparr>) = NaN"
    by (rule invalid_level_ieee)+
  have big:
    "competitorTurnoverEvents_ieee (calculator\<lparr>teamSize := 0, hourlyRate := 10 ^ 308\<rparr>) = Fin 0"
    "costPerEvent_ieee (calculator\<lparr>teamSize := 0, hourlyRate := 10 ^ 308\<rparr>) = PInf"
    "competitorTotal_ieee (calculator\<lparr>teamSize := 0, hourlyRate := 10 ^ 308\<rparr>) = NaN"
    "savingsPercentage_ieee (calculator\<lparr>teamSize := 0, hourlyRate := 10 ^ 308\<rparr>) = NaN"
    by (simp_all add: ieee_eval nv_facts)
  show ?thesis using expert big by simp
qed

text \<open>
  C8. For two inputs with a valid experience level that differ only in \<open>hourlyRate\<close>:
  when both rates lie between 0 and \<open>10 ^ 9\<close>, the larger rate gives a
  \<open>costPerEvent\<close> that is larger or equal, and, with \<open>teamSize\<close> and
  \<open>projectDuration\<close> between 0 and \<open>10 ^ 9\<close>, a \<open>competitorTotal\<close> and an
  \<open>inforceTotal\<close> that are larger or equal. When both rates are whole numbers between
  0 and 1,000,000, the larger rate gives a strictly larger \<open>costPerEvent\<close>; a strictly
  larger \<open>competitorTotal\<close> when the competitor has between 1 and 1,000,000 turnover
  events; and a strictly larger \<open>inforceTotal\<close> when InForce has between 1 and
  1,000,000 turnover events.
\<close>

theorem hourlyRate_monotone:
  assumes level: "experienceLevel c \<in> {''junior'', ''mixed'', ''senior''}"
  shows "(0 \<le> hourlyRate c \<and> hourlyRate c \<le> h \<and> h \<le> 10 ^ 9 \<longrightarrow>
          costPerEvent_ieee c \<le> costPerEvent_ieee (c\<lparr>hourlyRate := h\<rparr>)
          \<and> (0 \<le> teamSize c \<and> teamSize c \<le> 10 ^ 9
               \<and> 0 \<le> projectDuration c \<and> projectDuration c \<le> 10 ^ 9 \<longrightarrow>
                competitorTotal_ieee c \<le> competitorTotal_ieee (c\<lparr>hourlyRate := h\<rparr>)
                \<and> inforceTotal_ieee c \<le> inforceTotal_ieee (c\<lparr>hourlyRate := h\<rparr>)))
    \<and> (hourlyRate c = of_int a \<and> 0 \<le> a \<and> a < b \<and> b \<le> 1000000 \<longrightarrow>
          costPerEvent_ieee c < costPerEvent_ieee (c\<lparr>hourlyRate := of_int b\<rparr>)
          \<and> (Fin 1 \<le> competitorTurnoverEvents_ieee c
               \<and> competitorTurnoverEvents_ieee c \<le> Fin 1000000 \<longrightarrow>
                competitorTotal_ieee c < competitorTotal_ieee (c\<lparr>hourlyRate := of_int b\<rparr>))
          \<and> (Fin 1 \<le> inforceTurnoverEvents_ieee c
               \<and> inforceTurnoverEvents_ieee c \<le> Fin 1000000 \<longrightarrow>
                inforceTotal_ieee c < inforceTotal_ieee (c\<lparr>hourlyRate := of_int b\<rparr>)))"
proof -
  have cost: "costPerEvent_ieee c \<le> costPerEvent_ieee (c\<lparr>hourlyRate := h\<rparr>)"
    if lo: "0 \<le> hourlyRate c" and le: "hourlyRate c \<le> h" and hi: "h \<le> 10 ^ 9"
  proof -
    have "h \<le> 2 powi 30" using hi by simp
    with level lo le obtain x y where "costPerEvent_ieee c = Fin x"
      "costPerEvent_ieee (c\<lparr>hourlyRate := h\<rparr>) = Fin y" "x \<le> y"
      by (rule costPerEvent_below)
    then show ?thesis by simp
  qed
  have total: "competitorTotal_ieee c \<le> competitorTotal_ieee (c\<lparr>hourlyRate := h\<rparr>)
      \<and> inforceTotal_ieee c \<le> inforceTotal_ieee (c\<lparr>hourlyRate := h\<rparr>)"
    if "0 \<le> hourlyRate c" and "hourlyRate c \<le> h" and "h \<le> 10 ^ 9"
      and "0 \<le> teamSize c" and "teamSize c \<le> 10 ^ 9"
      and "0 \<le> projectDuration c" and "projectDuration c \<le> 10 ^ 9"
    using totals_below [OF level that] by simp
  have strict: "costPerEvent_ieee c < costPerEvent_ieee (c\<lparr>hourlyRate := of_int b\<rparr>)
      \<and> (Fin 1 \<le> competitorTurnoverEvents_ieee c
           \<and> competitorTurnoverEvents_ieee c \<le> Fin 1000000 \<longrightarrow>
            competitorTotal_ieee c < competitorTotal_ieee (c\<lparr>hourlyRate := of_int b\<rparr>))
      \<and> (Fin 1 \<le> inforceTurnoverEvents_ieee c
           \<and> inforceTurnoverEvents_ieee c \<le> Fin 1000000 \<longrightarrow>
            inforceTotal_ieee c < inforceTotal_ieee (c\<lparr>hourlyRate := of_int b\<rparr>))"
    if "hourlyRate c = of_int a" and "0 \<le> a" and "a < b" and "b \<le> 1000000"
    using level that by (rule hourlyRate_strict)
  from cost total strict show ?thesis by blast
qed

theorem hourlyRate_monotone_witness:
  "costPerEvent_ieee calculator < costPerEvent_ieee (calculator\<lparr>hourlyRate := 250\<rparr>)
   \<and> Fin 1 \<le> competitorTurnoverEvents_ieee calculator
   \<and> competitorTurnoverEvents_ieee calculator \<le> Fin 1000000
   \<and> competitorTotal_ieee calculator < competitorTotal_ieee (calculator\<lparr>hourlyRate := 250\<rparr>)
   \<and> Fin 1 \<le> inforceTurnoverEvents_ieee calculator
   \<and> inforceTurnoverEvents_ieee calculator \<le> Fin 1000000
   \<and> inforceTotal_ieee calculator < inforceTotal_ieee (calculator\<lparr>hourlyRate := 250\<rparr>)
   \<and> costPerEvent_ieee calculator \<le> costPerEvent_ieee (calculator\<lparr>hourlyRate := 401 / 2\<rparr>)
   \<and> competitorTotal_ieee calculator
        \<le> competitorTotal_ieee (calculator\<lparr>hourlyRate := 401 / 2\<rparr>)
   \<and> inforceTotal_ieee calculator \<le> inforceTotal_ieee (calculator\<lparr>hourlyRate := 401 / 2\<rparr>)"
proof -
  have level: "experienceLevel calculator \<in> {''junior'', ''mixed'', ''senior''}"
    by (simp add: default_level)
  have rate: "hourlyRate calculator = of_int 200" "(0::int) \<le> 200" "(200::int) < 250"
    "(250::int) \<le> 1000000"
    by (simp_all add: calculator_def)
  have weak: "0 \<le> hourlyRate calculator" "hourlyRate calculator \<le> 401 / 2"
    "(401 / 2 :: rat) \<le> 10 ^ 9"
    "0 \<le> teamSize calculator" "teamSize calculator \<le> 10 ^ 9"
    "0 \<le> projectDuration calculator" "projectDuration calculator \<le> 10 ^ 9"
    by (simp_all add: calculator_def)
  show ?thesis
    using hourlyRate_monotone [OF level, of "401 / 2" 200 250] rate weak
    by (simp add: default_events_ieee)
qed

text \<open>
  C8, as the specification words it, asks only that some turnover event occurs. With 12
  people over 6 months the competitor has 2 events and InForce has none, so
  \<open>inforceTotal\<close> is 0 at every hourly rate. With an experience level that is no key,
  \<open>costPerEvent\<close> is NaN at every hourly rate, and NaN is not less than NaN. The hourly
  rates \<open>200 + 2 ^ (- 45)\<close> and \<open>200 + 2 ^ (- 44)\<close> are two different numbers with one
  and the same \<open>costPerEvent\<close>, 60000.000000000015.
\<close>

theorem hourlyRate_monotone_counterexample:
  "Fin 1 \<le> competitorTurnoverEvents_ieee (calculator\<lparr>projectDuration := 6\<rparr>)
   \<and> inforceTurnoverEvents_ieee (calculator\<lparr>projectDuration := 6\<rparr>) = Fin 0
   \<and> inforceTotal_ieee (calculator\<lparr>projectDuration := 6\<rparr>) = Fin 0
   \<and> inforceTotal_ieee (calculator\<lparr>projectDuration := 6, hourlyRate := 250\<rparr>) = Fin 0
   \<and> \<not> inforceTotal_ieee (calculator\<lparr>projectDuration := 6\<rparr>)
        < inforceTotal_ieee (calculator\<lparr>projectDuration := 6, hourlyRate := 250\<rparr>)
   \<and> \<not> costPerEvent_ieee (calculator\<lparr>experienceLevel := ''expert''\<rparr>)
        < costPerEvent_ieee (calculator\<lparr>experienceLevel := ''expert'', hourlyRate := 250\<rparr>)
   \<and> costPerEvent_ieee (calculator\<lparr>hourlyRate := 200 + 1 / 2 ^ 45\<rparr>)
        = costPerEvent_ieee (calculator\<lparr>hourlyRate := 200 + 1 / 2 ^ 44\<rparr>)
   \<and> \<not> costPerEvent_ieee (calculator\<lparr>hourlyRate := 200 + 1 / 2 ^ 45\<rparr>)
        < costPerEvent_ieee (calculator\<lparr>hourlyRate := 200 + 1 / 2 ^ 44\<rparr>)"
proof -
  have six: "Fin 1 \<le> competitorTurnoverEvents_ieee (calculator\<lparr>projectDuration := 6\<rparr>)"
    "inforceTurnoverEvents_ieee (calculator\<lparr>projectDuration := 6\<rparr>) = Fin 0"
    "inforceTotal_ieee (calculator\<lparr>projectDuration := 6\<rparr>) = Fin 0"
    "inforceTotal_ieee (calculator\<lparr>projectDuration := 6, hourlyRate := 250\<rparr>) = Fin 0"
    by (simp_all add: ieee_eval nv_facts)
  have expert: "costPerEvent_ieee (calculator\<lparr>experienceLevel := ''expert''\<rparr>) = NaN"
    by (simp add: invalid_level_ieee)
  have near: "costPerEvent_ieee (calculator\<lparr>hourlyRate := 200 + 1 / 2 ^ 45\<rparr>)
      = Fin (4123168604160001 / 68719476736)"
    "costPerEvent_ieee (calculator\<lparr>hourlyRate := 200 + 1 / 2 ^ 44\<rparr>)
      = Fin (4123168604160001 / 68719476736)"
    by (simp_all add: ieee_eval nv_facts)
  show ?thesis using six expert near by simp
qed

text \<open>
  C9. For every input with \<open>hourlyRate\<close>, \<open>teamSize\<close> and \<open>projectDuration\<close> between 0
  and \<open>10 ^ 9\<close> and a valid experience level, there are no more InForce turnover events
  than competitor turnover events, \<open>savings\<close> is not negative, and \<open>savingsPercentage\<close>
  lies between 0 and 100.
\<close>

theorem savings_nonnegative:
  assumes "0 \<le> hourlyRate c" and "hourlyRate c \<le> 10 ^ 9"
    and "0 \<le> teamSize c" and "teamSize c \<le> 10 ^ 9"
    and "0 \<le> projectDuration c" and "projectDuration c \<le> 10 ^ 9"
    and "experienceLevel c \<in> {''junior'', ''mixed'', ''senior''}"
  shows "inforceTurnoverEvents_ieee c \<le> competitorTurnoverEvents_ieee c
    \<and> Fin 0 \<le> savings_ieee c
    \<and> Fin 0 \<le> savingsPercentage_ieee c \<and> savingsPercentage_ieee c \<le> Fin 100"
proof -
  obtain ie ce ct it s p :: rat where
    "inforceTurnoverEvents_ieee c = Fin ie" and "competitorTurnoverEvents_ieee c = Fin ce"
    and "0 \<le> ie" and "ie \<le> ce"
    and "competitorTotal_ieee c = Fin ct" and "inforceTotal_ieee c = Fin it"
    and "0 \<le> it" and "it \<le> ct"
    and "savings_ieee c = Fin s" and "0 \<le> s" and "s \<le> ct"
    and "savingsPercentage_ieee c = Fin p" and "0 \<le> p" and "p \<le> 100"
    using assms(7,1-6) by (rule bounded_totals)
  then show ?thesis by simp
qed

theorem savings_nonnegative_witness:
  "inforceTurnoverEvents_ieee calculator \<le> competitorTurnoverEvents_ieee calculator
   \<and> Fin 0 \<le> savings_ieee calculator
   \<and> Fin 0 \<le> savingsPercentage_ieee calculator
   \<and> savingsPercentage_ieee calculator \<le> Fin 100"
proof -
  have "0 \<le> hourlyRate calculator" "hourlyRate calculator \<le> 10 ^ 9"
    "0 \<le> teamSize calculator" "teamSize calculator \<le> 10 ^ 9"
    "0 \<le> projectDuration calculator" "projectDuration calculator \<le> 10 ^ 9"
    "experienceLevel calculator \<in> {''junior'', ''mixed'', ''senior''}"
    by (simp_all add: calculator_def)
  then show ?thesis by (rule savings_nonnegative)
qed

text \<open>
  C9, as worded, bounds the inputs from below only. With an hourly rate of \<open>10 ^ 308\<close>,
  \<open>costPerEvent\<close> and both totals are \<open>Infinity\<close>, \<open>savings\<close> is
  \<open>Infinity - Infinity\<close>, which is NaN, and \<open>savingsPercentage\<close> is NaN: neither
  \<open>0 \<le> savings\<close> nor \<open>savingsPercentage \<le> 100\<close> holds.
\<close>

theorem savings_overflow_counterexample:
  "costPerEvent_ieee (calculator\<lparr>hourlyRate := 10 ^ 308\<rparr>) = PInf
   \<and> competitorTotal_ieee (calculator\<lparr>hourlyRate := 10 ^ 308\<rparr>) = PInf
   \<and> inforceTotal_ieee (calculator\<lparr>hourlyRate := 10 ^ 308\<rparr>) = PInf
   \<and> savings_ieee (calculator\<lparr>hourlyRate := 10 ^ 308\<rparr>) = NaN
   \<and> savingsPercentage_ieee (calculator\<lparr>hourlyRate := 10 ^ 308\<rparr>) = NaN
   \<and> \<not> Fin 0 \<le> savings_ieee (calculator\<lparr>hourlyRate := 10 ^ 308\<rparr>)
   \<and> \<not> savingsPercentage_ieee (calculator\<lparr>hourlyRate := 10 ^ 308\<rparr>) \<le> Fin 100"
  by (simp add: ieee_eval nv_facts)

text \<open>
  C10. For an experience level that is none of the keys \<open>junior\<close>, \<open>mixed\<close>,
  \<open>senior\<close>, no getter raises an error. \<open>rampUpDays\<close> is \<open>undefined\<close>, unless the
  level names a member inherited from \<open>Object.prototype\<close>, in which case it is that
  member; either way it converts to NaN. \<open>rampUpCost\<close>, \<open>costPerEvent\<close>,
  \<open>competitorTotal\<close>, \<open>inforceTotal\<close>, \<open>savings\<close> and \<open>savingsPercentage\<close> are NaN,
  while \<open>idleTimeCost\<close>, \<open>onboardingCost\<close> and the two turnover event counts keep the
  values they have with a valid level; the two costs are not NaN.
\<close>

theorem invalid_level_values:
  assumes "experienceLevel c \<notin> {''junior'', ''mixed'', ''senior''}"
  shows "read_getter rampUpDays c =
      Inr (if experienceLevel c \<in> set Object_prototype
           then Inherited (experienceLevel c) else Undefined)
    \<and> ToNumber (rampUpDays c) = NaN
    \<and> read_getter rampUpCost_ieee c = Inr NaN
    \<and> read_getter costPerEvent_ieee c = Inr NaN
    \<and> read_getter competitorTotal_ieee c = Inr NaN
    \<and> read_getter inforceTotal_ieee c = Inr NaN
    \<and> read_getter savings_ieee c = Inr NaN
    \<and> read_getter savingsPercentage_ieee c = Inr NaN
    \<and> idleTimeCost_ieee c \<noteq> NaN
    \<and> onboardingCost_ieee c \<noteq> NaN
    \<and> read_getter idleTimeCost_ieee c
        = read_getter idleTimeCost_ieee (c\<lparr>experienceLevel := ''mixed''\<rparr>)
    \<and> read_getter onboardingCost_ieee c
        = read_getter onboardingCost_ieee (c\<lparr>experienceLevel := ''mixed''\<rparr>)
    \<and> read_getter competitorTurnoverEvents_ieee c
        = read_getter competitorTurnoverEvents_ieee (c\<lparr>experienceLevel := ''mixed''\<rparr>)
    \<and> read_getter inforceTurnoverEvents_ieee c
        = read_getter inforceTurnoverEvents_ieee (c\<lparr>experienceLevel := ''mixed''\<rparr>)"
proof -
  have "ToNumber (rampUpDays c) = NaN"
    using assms by (simp add: rampUpDays_own)
  moreover have "idleTimeCost_ieee c = idleTimeCost_ieee (c\<lparr>experienceLevel := ''mixed''\<rparr>)"
    "onboardingCost_ieee c = onboardingCost_ieee (c\<lparr>experienceLevel := ''mixed''\<rparr>)"
    "competitorTurnoverEvents_ieee c
      = competitorTurnoverEvents_ieee (c\<lparr>experienceLevel := ''mixed''\<rparr>)"
    "inforceTurnoverEvents_ieee c
      = inforceTurnoverEvents_ieee (c\<lparr>experienceLevel := ''mixed''\<rparr>)"
    by (simp_all add: idleTimeCost_ieee_def onboardingCost_ieee_def
        competitorTurnoverEvents_ieee_def inforceTurnoverEvents_ieee_def)
  ultimately show ?thesis
    using assms
    by (simp add: read_getter_def rampUpDays_invalid invalid_level_ieee idle_onboarding_numbers)
qed

theorem invalid_level_values_witness:
  "read_getter rampUpDays (calculator\<lparr>experienceLevel := ''expert''\<rparr>) = Inr Undefined
   \<and> read_getter rampUpDays (calculator\<lparr>experienceLevel := ''toString''\<rparr>)
        = Inr (Inherited ''toString'')
   \<and> read_getter savingsPercentage_ieee (calculator\<lparr>experienceLevel := ''expert''\<rparr>) = Inr NaN
   \<and> read_getter savingsPercentage_ieee (calculator\<lparr>experienceLevel := ''toString''\<rparr>)
        = Inr NaN
   \<and> read_getter idleTimeCost_ieee (calculator\<lparr>experienceLevel := ''expert''\<rparr>)
        = Inr (Fin 16000)
   \<and> read_getter competitorTurnoverEvents_ieee (calculator\<lparr>experienceLevel := ''expert''\<rparr>)
        = Inr (Fin 5)"
proof -
  have a: "experienceLevel (calculator\<lparr>experienceLevel := ''expert''\<rparr>)
      \<notin> {''junior'', ''mixed'', ''senior''}"
    and b: "experienceLevel (calculator\<lparr>experienceLevel := ''toString''\<rparr>)
      \<notin> {''junior'', ''mixed'', ''senior''}"
    by simp_all
  have mixed: "calculator\<lparr>experienceLevel := ''mixed''\<rparr> = calculator"
    by (simp add: calculator_def)
  have idle: "idleTimeCost_ieee calculator = Fin 16000"
    by (simp add: ieee_eval nv_facts)
  show ?thesis
    using invalid_level_values [OF a] invalid_level_values [OF b]
    by (simp add: Object_prototype_def read_getter_def mixed idle default_events_ieee)
qed

text \<open>
  C10, read as \<open>rampUpDays\<close> being undefined for every key outside the three, fails
  at the key \<open>constructor\<close>: \<open>rampUpTimelines\<close> is an object literal, and the read
  finds the member it inherits.
\<close>

theorem inherited_member_counterexample:
  "''constructor'' \<notin> {''junior'', ''mixed'', ''senior''}
   \<and> rampUpDays (calculator\<lparr>experienceLevel := ''constructor''\<rparr>) = Inherited ''constructor''
   \<and> rampUpDays (calculator\<lparr>experienceLevel := ''constructor''\<rparr>) \<noteq> Undefined"
  by (simp add: rampUpDays_own Object_prototype_def)

end
